theory Spec2Isabelle
  imports Main
begin

section \<open>Python values of the server\<close>

text \<open>
  The three programs (\<^verbatim>\<open>xjg.py\<close>, \<^verbatim>\<open>xavier.py\<close>, \<^verbatim>\<open>xjg_backup.py\<close>) read lines from
  standard input, decode each with \<^verbatim>\<open>json.loads\<close> and answer on standard output.

  A Python \<^verbatim>\<open>str\<close> is a sequence of Unicode code points, so it is modelled as a list of
  natural numbers; \<open>length\<close> is then Python's \<^verbatim>\<open>len\<close>. \<open>str\<close> turns an ASCII literal
  into such a list.
\<close>

type_synonym pystr = "nat list"

definition str :: "string \<Rightarrow> pystr" where
  "str cs = map of_char cs"

text \<open>
  What \<^verbatim>\<open>json.loads\<close> returns: \<^verbatim>\<open>None\<close>, a bool, an int, a float (kept as its 64-bit
  pattern: the programs never compute with one), a str, a list, or a dict with str keys.
  A dict is an association list in insertion order, looked up with \<open>map_of\<close>; the same
  type serves for the dicts the programs build and hand to \<^verbatim>\<open>json.dumps\<close>.
\<close>

datatype json =
    JNull
  | JBool bool
  | JInt int
  | JFloat nat
  | JStr pystr
  | JArr "json list"
  | JObj "(pystr \<times> json) list"

text \<open>
  The exceptions (all subclasses of \<^verbatim>\<open>Exception\<close>) that the programs can meet.
  \<open>AttributeError v a\<close>: value \<open>v\<close> has no attribute \<open>a\<close>; \<open>TypeError v\<close>: \<open>v\<close> does not
  support the operation applied to it; \<open>KeyError k\<close>: a dict has no key \<open>k\<close>;
  \<open>IndexError\<close>: an index out of range; \<open>ValueError v\<close>: \<open>v\<close> has the right type and a
  value the operation refuses; \<open>JSONDecodeError t\<close>: the decoder found that \<open>t\<close> is not a
  JSON document; \<open>RecursionError\<close>: the interpreter's recursion limit was reached, as it is
  by the decoder on a text nested about a thousand deep; \<open>URLError\<close> and \<open>OtherError\<close>
  come from the network library, with the reason it gives. In Python JSONDecodeError is
  a subclass of ValueError; no handler of the programs names ValueError, so the two are
  kept apart here.
\<close>

datatype exn =
    AttributeError json pystr
  | TypeError json
  | KeyError json
  | IndexError
  | ValueError json
  | JSONDecodeError pystr
  | RecursionError
  | URLError pystr
  | OtherError pystr

subsection \<open>String methods used by the tools\<close>

text \<open>
  \<^verbatim>\<open>str.isspace\<close> for one code point: the characters that \<^verbatim>\<open>str.split()\<close> and
  \<^verbatim>\<open>str.strip()\<close> treat as whitespace.
\<close>

definition isspace :: "nat \<Rightarrow> bool" where
  "isspace c = ((9 \<le> c \<and> c \<le> 13) \<or> (28 \<le> c \<and> c \<le> 32) \<or> c = 133 \<or> c = 160
     \<or> c = 5760 \<or> (8192 \<le> c \<and> c \<le> 8202) \<or> c = 8232 \<or> c = 8233 \<or> c = 8239
     \<or> c = 8287 \<or> c = 12288)"

text \<open>\<^verbatim>\<open>text.strip()\<close>: whitespace removed at both ends.\<close>

definition strip :: "pystr \<Rightarrow> pystr" where
  "strip s = rev (dropWhile isspace (rev (dropWhile isspace s)))"

text \<open>
  \<^verbatim>\<open>text.split()\<close>: the maximal runs of non-whitespace characters, in order. The scan
  keeps the word being read in \<open>cur\<close>.
\<close>

fun words_from :: "pystr \<Rightarrow> pystr \<Rightarrow> pystr list" where
  "words_from cur [] = (if cur = [] then [] else [cur])"
| "words_from cur (c # cs) =
     (if isspace c then (if cur = [] then words_from [] cs else cur # words_from [] cs)
      else words_from (cur @ [c]) cs)"

definition split :: "pystr \<Rightarrow> pystr list" where
  "split s = words_from [] s"

text \<open>\<^verbatim>\<open>text.replace(" ", "")\<close>: every U+0020 removed, nothing else.\<close>

definition remove_spaces :: "pystr \<Rightarrow> pystr" where
  "remove_spaces s = filter (\<lambda>c. c \<noteq> 32) s"

text \<open>
  \<^verbatim>\<open>text.splitlines()\<close>: the text cut at line boundaries (\<^verbatim>\<open>\n\<close>, \<^verbatim>\<open>\r\<close>, \<^verbatim>\<open>\r\n\<close> as
  one, \<^verbatim>\<open>\v\<close>, \<^verbatim>\<open>\f\<close>, U+001C to U+001E, U+0085, U+2028, U+2029), boundaries dropped,
  no empty last line.
\<close>

definition is_linebreak :: "nat \<Rightarrow> bool" where
  "is_linebreak c = ((10 \<le> c \<and> c \<le> 13) \<or> (28 \<le> c \<and> c \<le> 30) \<or> c = 133 \<or> c = 8232 \<or> c = 8233)"

fun lines_from :: "pystr \<Rightarrow> pystr \<Rightarrow> pystr list" where
  "lines_from cur [] = (if cur = [] then [] else [cur])"
| "lines_from cur (c # cs) =
     (if c = 13 then
        (case cs of
           [] \<Rightarrow> [cur]
         | d # ds \<Rightarrow> if d = 10 then cur # lines_from [] ds else cur # lines_from [] cs)
      else if is_linebreak c then cur # lines_from [] cs
      else lines_from (cur @ [c]) cs)"

definition splitlines :: "pystr \<Rightarrow> pystr list" where
  "splitlines s = lines_from [] s"

subsection \<open>Formatting\<close>

text \<open>\<^verbatim>\<open>str(n)\<close> for an int: decimal digits, with a minus sign when negative.\<close>

fun dec_nat :: "nat \<Rightarrow> pystr" where
  "dec_nat n = (if n < 10 then [48 + n] else dec_nat (n div 10) @ [48 + n mod 10])"

declare dec_nat.simps [simp del]

definition dec_int :: "int \<Rightarrow> pystr" where
  "dec_int i = (if i < 0 then 45 # dec_nat (nat (- i)) else dec_nat (nat i))"

section \<open>The word\_count tool\<close>

text \<open>
  \<^verbatim>\<open>xjg.py\<close> lines 219 to 229 (the same text is in \<^verbatim>\<open>xavier.py\<close>), for \<open>text\<close> a str:
  \<^verbatim>\<open>
  word_count = len(text.split()) if text.strip() else 0
  char_count = len(text)
  char_count_no_spaces = len(text.replace(" ", ""))
  line_count = len(text.splitlines()) if text else 0
  \<close>
\<close>

definition word_count :: "pystr \<Rightarrow> nat" where
  "word_count text = (if strip text \<noteq> [] then length (split text) else 0)"

definition char_count :: "pystr \<Rightarrow> nat" where
  "char_count text = length text"

definition char_count_no_spaces :: "pystr \<Rightarrow> nat" where
  "char_count_no_spaces text = length (remove_spaces text)"

definition line_count :: "pystr \<Rightarrow> nat" where
  "line_count text = (if text \<noteq> [] then length (splitlines text) else 0)"

text \<open>The report: five lines, each count after its label.\<close>

definition word_count_result :: "pystr \<Rightarrow> pystr" where
  "word_count_result text =
     str ''Text Analysis:'' @ [10]
     @ [128221] @ str '' Words: '' @ dec_nat (word_count text) @ [10]
     @ [128292] @ str '' Characters: '' @ dec_nat (char_count text) @ [10]
     @ [128292] @ str '' Characters (no spaces): '' @ dec_nat (char_count_no_spaces text) @ [10]
     @ [128196] @ str '' Lines: '' @ dec_nat (line_count text)"

section \<open>Python operations on decoded values\<close>

text \<open>
  A computation that may raise returns \<open>exn + 'a\<close>, \<open>Inl\<close> the exception; \<open>bnd\<close> runs the
  next statement only when the one before returned.
\<close>

definition bnd :: "exn + 'a \<Rightarrow> ('a \<Rightarrow> exn + 'b) \<Rightarrow> exn + 'b" where
  "bnd m f = (case m of Inl e \<Rightarrow> Inl e | Inr x \<Rightarrow> f x)"

text \<open>
  The value under key \<open>k\<close> of a dict, \<open>dflt\<close> when the key is missing. A decoded dict has
  each key once.
\<close>

definition lookup :: "(pystr \<times> json) list \<Rightarrow> pystr \<Rightarrow> json \<Rightarrow> json" where
  "lookup kvs k dflt = (case map_of kvs k of None \<Rightarrow> dflt | Some v \<Rightarrow> v)"

text \<open>
  \<^verbatim>\<open>d.get(k, default)\<close>: only a dict has the method; on anything else the attribute
  lookup raises. \<^verbatim>\<open>d.get(k)\<close> is \<open>get d k JNull\<close>.
\<close>

definition get :: "json \<Rightarrow> pystr \<Rightarrow> json \<Rightarrow> exn + json" where
  "get d k dflt =
     (case d of
        JObj kvs \<Rightarrow> Inr (lookup kvs k dflt)
      | _ \<Rightarrow> Inl (AttributeError d (str ''get'')))"

text \<open>
  \<^verbatim>\<open>v[k]\<close> for a str literal \<open>k\<close>, and \<^verbatim>\<open>v[n]\<close> for \<open>n\<close> 0 or 1: an element of a list, a
  character of a str; the keys of a decoded dict are strs, so a dict has no key \<open>n\<close>.
\<close>

definition getitem :: "json \<Rightarrow> pystr \<Rightarrow> exn + json" where
  "getitem v k =
     (case v of
        JObj kvs \<Rightarrow> (case map_of kvs k of None \<Rightarrow> Inl (KeyError (JStr k)) | Some x \<Rightarrow> Inr x)
      | _ \<Rightarrow> Inl (TypeError v))"

definition getitem_at :: "json \<Rightarrow> nat \<Rightarrow> exn + json" where
  "getitem_at v n =
     (case v of
        JArr xs \<Rightarrow> (if n < length xs then Inr (xs ! n) else Inl IndexError)
      | JStr s \<Rightarrow> (if n < length s then Inr (JStr [s ! n]) else Inl IndexError)
      | JObj kvs \<Rightarrow> Inl (KeyError (JInt (int n)))
      | _ \<Rightarrow> Inl (TypeError v))"

text \<open>
  \<^verbatim>\<open>text[::-1]\<close>: a str or a list reversed; nothing else can be sliced (a dict raises
  TypeError up to Python 3.11 and KeyError from 3.12 on, caught by the same handler).
\<close>

definition reversed :: "json \<Rightarrow> exn + json" where
  "reversed v =
     (case v of
        JStr s \<Rightarrow> Inr (JStr (rev s))
      | JArr xs \<Rightarrow> Inr (JArr (rev xs))
      | _ \<Rightarrow> Inl (TypeError v))"

section \<open>The environment\<close>

text \<open>
  What the programs take from the standard library, the clock and the network, as
  parameters:
  \<^item> \<open>loads\<close>: \<^verbatim>\<open>json.loads\<close> on a str: the decoded value, or the exception it
    raises, which is JSONDecodeError for most texts that are no JSON, RecursionError
    for a text nested deeper than the recursion limit allows, and ValueError for an
    integer literal longer than the interpreter converts;
  \<^item> \<open>py_repr\<close>: \<^verbatim>\<open>str(v)\<close> for a float, a list or a dict;
  \<^item> \<open>exc_str\<close>: \<^verbatim>\<open>str(e)\<close> for an exception;
  \<^item> \<open>quote\<close>: \<^verbatim>\<open>urllib.parse.quote\<close> on a str;
  \<^item> \<open>urlopen\<close>: \<^verbatim>\<open>urllib.request.urlopen(url, timeout=t)\<close>, given the number of
    requests made before, the URL and the timeout in seconds;
  \<^item> \<open>int_of_str\<close>, \<open>int_of_float\<close>: \<^verbatim>\<open>int(x)\<close> on a str (\<open>None\<close> when it raises
    ValueError) and on a float;
  \<^item> \<open>lower\<close>: \<^verbatim>\<open>str.lower\<close>;
  \<^item> \<open>today\<close>: \<^verbatim>\<open>datetime.date.today()\<close>, given the number of lines written before; a
    date is a count of days, and the last day of year 9999, where a day cannot be added,
    is left out;
  \<^item> \<open>strptime\<close>: \<^verbatim>\<open>datetime.datetime.strptime(s, "%Y-%m-%d").date()\<close>, \<open>None\<close> when it
    raises;
  \<^item> \<open>strftime\<close>: \<^verbatim>\<open>d.strftime("%A, %B %d, %Y")\<close>.
\<close>

text \<open>
  A request either raises or gives a response with a status and a body; \<open>Opened st b\<close>
  has \<open>b\<close> the outcome of \<^verbatim>\<open>response_data.read().decode()\<close>.
\<close>

datatype fetch = Refused exn | Opened int "exn + pystr"

record env =
  loads :: "pystr \<Rightarrow> exn + json"
  py_repr :: "json \<Rightarrow> pystr"
  exc_str :: "exn \<Rightarrow> pystr"
  quote :: "pystr \<Rightarrow> exn + pystr"
  urlopen :: "nat \<Rightarrow> pystr \<Rightarrow> nat \<Rightarrow> fetch"
  int_of_str :: "pystr \<Rightarrow> int option"
  int_of_float :: "nat \<Rightarrow> exn + int"
  lower :: "pystr \<Rightarrow> pystr"
  today :: "nat \<Rightarrow> int"
  strptime :: "pystr \<Rightarrow> int option"
  strftime :: "int \<Rightarrow> pystr"

text \<open>\<^verbatim>\<open>f"{v}"\<close>: \<^verbatim>\<open>str(v)\<close> of a decoded value.\<close>

definition py_str :: "env \<Rightarrow> json \<Rightarrow> pystr" where
  "py_str env v =
     (case v of
        JStr s \<Rightarrow> s
      | JNull \<Rightarrow> str ''None''
      | JBool b \<Rightarrow> (if b then str ''True'' else str ''False'')
      | JInt i \<Rightarrow> dec_int i
      | _ \<Rightarrow> py_repr env v)"

text \<open>\<^verbatim>\<open>urllib.parse.quote(city)\<close>: anything that is neither str nor bytes is refused.\<close>

definition quote_value :: "env \<Rightarrow> json \<Rightarrow> exn + pystr" where
  "quote_value env city = (case city of JStr s \<Rightarrow> quote env s | _ \<Rightarrow> Inl (TypeError city))"

section \<open>The server state\<close>

text \<open>
  \<open>initialized\<close> is the flag of the main loop. \<open>out\<close> holds the lines written and
  flushed to standard output, oldest first, each as the dict given to \<^verbatim>\<open>json.dumps\<close>.
  \<open>fetched\<close> holds the URLs requested from the network, oldest first. Standard output
  is taken to accept every line; diagnostics on standard error are left out.
\<close>

record state =
  initialized :: bool
  out :: "json list"
  fetched :: "pystr list"

text \<open>\<^verbatim>\<open>print(json.dumps(v)); sys.stdout.flush()\<close>\<close>

definition emit :: "json \<Rightarrow> state \<Rightarrow> state" where
  "emit v s = s\<lparr>out := out s @ [v]\<rparr>"

subsection \<open>Schemas and envelopes\<close>

definition string_property :: "pystr \<Rightarrow> json" where
  "string_property name = JObj [(name, JObj [(str ''type'', JStr (str ''string''))])]"

definition object_schema :: "json \<Rightarrow> json list \<Rightarrow> json" where
  "object_schema properties required =
     JObj [(str ''type'', JStr (str ''object'')),
           (str ''properties'', properties),
           (str ''required'', JArr required)]"

definition echo_schema :: json where
  "echo_schema = object_schema (string_property (str ''message'')) [JStr (str ''message'')]"

definition text_schema :: json where
  "text_schema = object_schema (string_property (str ''text'')) [JStr (str ''text'')]"

definition weather_schema :: json where
  "weather_schema =
     object_schema
       (JObj [(str ''city'',
               JObj [(str ''type'', JStr (str ''string'')),
                     (str ''description'', JStr (str ''City name (e.g., 'Las Vegas' or 'Denver')''))])])
       []"

definition echo_description :: pystr where
  "echo_description = str ''Echo back text''"

definition reverse_description :: pystr where
  "reverse_description = str ''Reverse the order of characters in text''"

definition word_count_description :: pystr where
  "word_count_description = str ''Count words, characters, and lines in text''"

definition weather_description :: pystr where
  "weather_description = str ''Get current weather for a city (defaults to Frisco, Colorado)''"

text \<open>An entry of the \<^verbatim>\<open>tools/declare\<close> mapping and an entry of the \<^verbatim>\<open>tools/list\<close> list.\<close>

definition declared :: "pystr \<Rightarrow> pystr \<Rightarrow> json \<Rightarrow> pystr \<times> json" where
  "declared name description schema =
     (name, JObj [(str ''description'', JStr description), (str ''input_schema'', schema)])"

definition descriptor :: "pystr \<Rightarrow> pystr \<Rightarrow> json \<Rightarrow> json" where
  "descriptor name description schema =
     JObj [(str ''name'', JStr name), (str ''description'', JStr description),
           (str ''inputSchema'', schema)]"

text \<open>\<^verbatim>\<open>xjg.py\<close> lines 14 to 64.\<close>

definition tool_declaration :: json where
  "tool_declaration =
     JObj [(str ''jsonrpc'', JStr (str ''2.0'')),
           (str ''method'', JStr (str ''tools/declare'')),
           (str ''params'',
            JObj [(str ''tools'',
                   JObj [declared (str ''echo'') echo_description echo_schema,
                         declared (str ''reverse'') reverse_description text_schema,
                         declared (str ''word_count'') word_count_description text_schema,
                         declared (str ''weather'') weather_description weather_schema])])]"

definition send_tool_declaration :: "state \<Rightarrow> state" where
  "send_tool_declaration s = emit tool_declaration s"

text \<open>The two response envelopes.\<close>

definition result_response :: "json \<Rightarrow> json \<Rightarrow> json" where
  "result_response req_id result =
     JObj [(str ''jsonrpc'', JStr (str ''2.0'')), (str ''id'', req_id), (str ''result'', result)]"

definition error_response :: "json \<Rightarrow> pystr \<Rightarrow> json" where
  "error_response req_id message =
     JObj [(str ''jsonrpc'', JStr (str ''2.0'')), (str ''id'', req_id),
           (str ''error'', JObj [(str ''code'', JInt (- 32601)), (str ''message'', JStr message)])]"

definition text_response :: "json \<Rightarrow> pystr \<Rightarrow> json" where
  "text_response req_id text =
     result_response req_id
       (JObj [(str ''content'',
               JArr [JObj [(str ''type'', JStr (str ''text'')), (str ''text'', JStr text)]])])"

text \<open>\<^verbatim>\<open>xjg.py\<close> lines 110 to 123.\<close>

definition initialize_response :: "json \<Rightarrow> json" where
  "initialize_response req_id =
     result_response req_id
       (JObj [(str ''protocolVersion'', JStr (str ''2024-11-05'')),
              (str ''capabilities'', JObj [(str ''tools'', JObj [])]),
              (str ''serverInfo'',
               JObj [(str ''name'', JStr (str ''frisco-weather-server'')),
                     (str ''version'', JStr (str ''1.0.0''))])])"

text \<open>\<^verbatim>\<open>xjg.py\<close> lines 133 to 187.\<close>

definition tools_list :: "json list" where
  "tools_list =
     [descriptor (str ''echo'') echo_description echo_schema,
      descriptor (str ''reverse'') reverse_description text_schema,
      descriptor (str ''word_count'') word_count_description text_schema,
      descriptor (str ''weather'') weather_description weather_schema]"

definition tools_list_response :: "json \<Rightarrow> json" where
  "tools_list_response req_id = result_response req_id (JObj [(str ''tools'', JArr tools_list)])"

section \<open>The tools of xjg.py\<close>

text \<open>\<^verbatim>\<open>req.get("params", {}).get("arguments", {}).get(k, dflt)\<close>\<close>

definition argument :: "json \<Rightarrow> pystr \<Rightarrow> json \<Rightarrow> exn + json" where
  "argument req k dflt =
     bnd (get req (str ''params'') (JObj [])) (\<lambda>params.
     bnd (get params (str ''arguments'') (JObj [])) (\<lambda>arguments.
     get arguments k dflt))"

text \<open>Lines 197 to 202: the text of the echo tool.\<close>

definition echo_text :: "env \<Rightarrow> json \<Rightarrow> exn + pystr" where
  "echo_text env req =
     bnd (argument req (str ''message'') (JStr [])) (\<lambda>message.
     Inr (str ''Echo: '' @ py_str env message))"

text \<open>Lines 206 to 212: the text of the reverse tool.\<close>

definition reverse_text :: "env \<Rightarrow> json \<Rightarrow> exn + pystr" where
  "reverse_text env req =
     bnd (argument req (str ''text'') (JStr [])) (\<lambda>text.
     bnd (reversed text) (\<lambda>reversed_text.
     Inr (str ''Reversed: '' @ py_str env reversed_text)))"

text \<open>
  Lines 216 to 229: the text of the word\_count tool. \<^verbatim>\<open>text.strip()\<close> is evaluated
  first, and only a str has the method.
\<close>

definition word_count_text :: "json \<Rightarrow> exn + pystr" where
  "word_count_text req =
     bnd (argument req (str ''text'') (JStr [])) (\<lambda>text.
     case text of
       JStr t \<Rightarrow> Inr (word_count_result t)
     | _ \<Rightarrow> Inl (AttributeError text (str ''strip'')))"

text \<open>
  Lines 249 to 259: the report built from the decoded document. The fields are read in
  the order of the f-string, so the first one missing decides the exception.
\<close>

definition weather_report :: "env \<Rightarrow> json \<Rightarrow> json \<Rightarrow> exn + pystr" where
  "weather_report env city weather_data =
     bnd (getitem weather_data (str ''current_condition'')) (\<lambda>conditions.
     bnd (getitem_at conditions 0) (\<lambda>current.
     bnd (getitem current (str ''temp_F'')) (\<lambda>temp_F.
     bnd (getitem current (str ''temp_C'')) (\<lambda>temp_C.
     bnd (getitem current (str ''weatherDesc'')) (\<lambda>descs.
     bnd (getitem_at descs 0) (\<lambda>desc.
     bnd (getitem desc (str ''value'')) (\<lambda>condition.
     bnd (getitem current (str ''windspeedMiles'')) (\<lambda>wind.
     bnd (getitem current (str ''humidity'')) (\<lambda>humidity.
     bnd (getitem current (str ''visibility'')) (\<lambda>visibility.
     Inr ([127780, 65039] @ str '' Weather for '' @ py_str env city @ str '':'' @ [10]
          @ [127777, 65039] @ str '' Temperature: '' @ py_str env temp_F @ [176] @ str ''F (''
          @ py_str env temp_C @ [176] @ str ''C)'' @ [10]
          @ [127780, 65039] @ str '' Condition: '' @ py_str env condition @ [10]
          @ [128168] @ str '' Wind: '' @ py_str env wind @ str '' mph'' @ [10]
          @ [128167] @ str '' Humidity: '' @ py_str env humidity @ str ''%'' @ [10]
          @ [128065, 65039] @ str '' Visibility: '' @ py_str env visibility @ str '' miles''
          @ [10, 10] @ str ''Perfect for checking your hometown weather! ''
          @ [127956, 65039, 10052, 65039])))))))))))"

text \<open>Line 262: the text when the status is not 200.\<close>

definition weather_sorry :: "env \<Rightarrow> json \<Rightarrow> pystr" where
  "weather_sorry env city =
     [10060] @ str '' Sorry, couldn't get weather for '' @ py_str env city
     @ str ''. Try a different city name!''"

text \<open>Line 244: the address asked, from the quoted city.\<close>

definition weather_url :: "pystr \<Rightarrow> pystr" where
  "weather_url city_encoded = str ''https://wttr.in/'' @ city_encoded @ str ''?format=j1''"

text \<open>
  Lines 242 to 262, the body of the \<^verbatim>\<open>try\<close>: the outcome, and the state with the URL
  recorded when the request was made. The body is read only when the status is 200.
\<close>

definition weather_try :: "env \<Rightarrow> state \<Rightarrow> json \<Rightarrow> (exn + pystr) \<times> state" where
  "weather_try env s city =
     (case quote_value env city of
        Inl e \<Rightarrow> (Inl e, s)
      | Inr city_encoded \<Rightarrow>
          ((case urlopen env (length (fetched s)) (weather_url city_encoded) 10 of
              Refused e \<Rightarrow> Inl e
            | Opened status body \<Rightarrow>
                if status = 200
                then bnd body (\<lambda>text.
                     bnd (loads env text) (\<lambda>weather_data.
                     weather_report env city weather_data))
                else Inr (weather_sorry env city)),
           s\<lparr>fetched := fetched s @ [weather_url city_encoded]\<rparr>))"

text \<open>Lines 264 to 267: the two handlers of the \<^verbatim>\<open>try\<close>, and the text each one builds.\<close>

definition network_error_text :: "env \<Rightarrow> exn \<Rightarrow> pystr" where
  "network_error_text env e = [127760] @ str '' Network error getting weather: '' @ exc_str env e"

definition processing_error_text :: "env \<Rightarrow> exn \<Rightarrow> pystr" where
  "processing_error_text env e =
     [9888, 65039] @ str '' Error processing weather data: '' @ exc_str env e"

definition weather_info :: "env \<Rightarrow> exn + pystr \<Rightarrow> pystr" where
  "weather_info env r =
     (case r of
        Inr info \<Rightarrow> info
      | Inl (URLError reason) \<Rightarrow> network_error_text env (URLError reason)
      | Inl e \<Rightarrow> processing_error_text env e)"

section \<open>The dispatcher of xjg.py\<close>

text \<open>
  Lines 194 to 287, the \<^verbatim>\<open>tools/call\<close> branch for a request with an id. Every
  statement that can raise comes before the branch writes or fetches anything.
\<close>

definition tools_call :: "env \<Rightarrow> state \<Rightarrow> json \<Rightarrow> json \<Rightarrow> exn + state" where
  "tools_call env s req req_id =
     bnd (get req (str ''params'') (JObj [])) (\<lambda>params.
     bnd (get params (str ''name'') JNull) (\<lambda>tool_name.
       if tool_name = JStr (str ''echo'') then
         bnd (echo_text env req) (\<lambda>text. Inr (emit (text_response req_id text) s))
       else if tool_name = JStr (str ''reverse'') then
         bnd (reverse_text env req) (\<lambda>text. Inr (emit (text_response req_id text) s))
       else if tool_name = JStr (str ''word_count'') then
         bnd (word_count_text req) (\<lambda>text. Inr (emit (text_response req_id text) s))
       else if tool_name = JStr (str ''weather'') then
         bnd (argument req (str ''city'') (JStr (str ''Frisco, Colorado''))) (\<lambda>city.
           case weather_try env s city of
             (r, s') \<Rightarrow> Inr (emit (text_response req_id (weather_info env r)) s'))
       else
         Inr (emit (error_response req_id (str ''Unknown tool: '' @ py_str env tool_name)) s)))"

text \<open>Lines 105 to 303: what one decoded message does to the state.\<close>

definition handle :: "env \<Rightarrow> state \<Rightarrow> json \<Rightarrow> exn + state" where
  "handle env s req =
     bnd (get req (str ''method'') JNull) (\<lambda>method.
     bnd (get req (str ''id'') JNull) (\<lambda>req_id.
       if method = JStr (str ''initialize'') then
         Inr (send_tool_declaration
               ((if req_id \<noteq> JNull then emit (initialize_response req_id) s else s)
                 \<lparr>initialized := True\<rparr>))
       else if method = JStr (str ''tools/list'') then
         Inr (if req_id \<noteq> JNull then emit (tools_list_response req_id) s else s)
       else if method = JStr (str ''tools/call'') then
         (if req_id \<noteq> JNull then tools_call env s req req_id else Inr s)
       else
         Inr (if req_id \<noteq> JNull
              then emit (error_response req_id (str ''Unknown method: '' @ py_str env method)) s
              else s)))"

section \<open>The main loop\<close>

text \<open>
  The process is running (blocked in \<^verbatim>\<open>readline\<close> between two messages), idle (in the
  \<^verbatim>\<open>while True: time.sleep(1)\<close> loop of line 90), or gone. What happens to it:
  \<^item> \<open>Read line\<close>: \<^verbatim>\<open>readline\<close> returns \<open>line\<close>, the empty str at the end of the stream;
  \<^item> \<open>Tick\<close>: a second passes;
  \<^item> \<open>Signal\<close>: SIGINT or SIGTERM is delivered, and \<^verbatim>\<open>signal_handler\<close> calls
    \<^verbatim>\<open>sys.exit(0)\<close>. Both signals have this handler, so no KeyboardInterrupt is raised,
    and SystemExit is no \<^verbatim>\<open>Exception\<close>: no handler of the loop catches it.
  A signal is taken to arrive between two messages.
\<close>

datatype exit_reason = StdinClosed | Fatal exn | Signalled

datatype proc = Running state | Idle state | Exited exit_reason state

datatype event = Read pystr | Tick | Signal

text \<open>
  Lines 84 to 310, one turn of the \<^verbatim>\<open>while True\<close> loop once \<^verbatim>\<open>readline\<close> has returned.
  A JSONDecodeError continues the loop (line 305); any other exception, from the decoder
  or from the dispatch, leaves it through the outer handler of line 314. The loop is the same text in the three programs; what they do
  with a decoded message is the parameter \<open>dispatch\<close>.
\<close>

definition iteration ::
  "(env \<Rightarrow> state \<Rightarrow> json \<Rightarrow> exn + state) \<Rightarrow> env \<Rightarrow> state \<Rightarrow> pystr \<Rightarrow> proc" where
  "iteration dispatch env s line =
     (if line = [] then (if initialized s then Idle s else Exited StdinClosed s)
      else if strip line = [] then Running s
      else
        (case bnd (loads env (strip line)) (dispatch env s) of
           Inr s' \<Rightarrow> Running s'
         | Inl (JSONDecodeError text) \<Rightarrow> Running s
         | Inl e \<Rightarrow> Exited (Fatal e) s))"

fun step ::
  "(env \<Rightarrow> state \<Rightarrow> json \<Rightarrow> exn + state) \<Rightarrow> env \<Rightarrow> proc \<Rightarrow> event \<Rightarrow> proc" where
  "step dispatch env (Running s) (Read line) = iteration dispatch env s line"
| "step dispatch env (Running s) Tick = Running s"
| "step dispatch env (Running s) Signal = Exited Signalled s"
| "step dispatch env (Idle s) Signal = Exited Signalled s"
| "step dispatch env (Idle s) (Read line) = Idle s"
| "step dispatch env (Idle s) Tick = Idle s"
| "step dispatch env (Exited r s) ev = Exited r s"

definition run ::
  "(env \<Rightarrow> state \<Rightarrow> json \<Rightarrow> exn + state) \<Rightarrow> env \<Rightarrow> proc \<Rightarrow> event list \<Rightarrow> proc" where
  "run dispatch env p evs = foldl (step dispatch env) p evs"

text \<open>Line 80: the state the loop starts in.\<close>

definition start :: state where
  "start = \<lparr>initialized = False, out = [], fetched = []\<rparr>"

section \<open>The older program xjg\_backup.py\<close>

text \<open>
  \<^verbatim>\<open>xjg_backup.py\<close> declares the echo tool alone (lines 13 to 30), names itself
  \<^verbatim>\<open>xjg-server\<close> (line 88), and its dispatch (lines 76 to 144) has three branches:
  \<^verbatim>\<open>initialize\<close>, \<^verbatim>\<open>tools/call\<close> and the rest.
\<close>

definition backup_tool_declaration :: json where
  "backup_tool_declaration =
     JObj [(str ''jsonrpc'', JStr (str ''2.0'')),
           (str ''method'', JStr (str ''tools/declare'')),
           (str ''params'',
            JObj [(str ''tools'',
                   JObj [declared (str ''echo'') echo_description echo_schema])])]"

definition backup_initialize_response :: "json \<Rightarrow> json" where
  "backup_initialize_response req_id =
     result_response req_id
       (JObj [(str ''protocolVersion'', JStr (str ''2024-11-05'')),
              (str ''capabilities'', JObj [(str ''tools'', JObj [])]),
              (str ''serverInfo'',
               JObj [(str ''name'', JStr (str ''xjg-server'')),
                     (str ''version'', JStr (str ''1.0.0''))])])"

definition backup_tools_call :: "env \<Rightarrow> state \<Rightarrow> json \<Rightarrow> json \<Rightarrow> exn + state" where
  "backup_tools_call env s req req_id =
     bnd (get req (str ''params'') (JObj [])) (\<lambda>params.
     bnd (get params (str ''name'') JNull) (\<lambda>tool_name.
       if tool_name = JStr (str ''echo'') then
         bnd (echo_text env req) (\<lambda>text. Inr (emit (text_response req_id text) s))
       else
         Inr (emit (error_response req_id (str ''Unknown tool: '' @ py_str env tool_name)) s)))"

definition backup_handle :: "env \<Rightarrow> state \<Rightarrow> json \<Rightarrow> exn + state" where
  "backup_handle env s req =
     bnd (get req (str ''method'') JNull) (\<lambda>method.
     bnd (get req (str ''id'') JNull) (\<lambda>req_id.
       if method = JStr (str ''initialize'') then
         Inr (emit backup_tool_declaration
               ((if req_id \<noteq> JNull then emit (backup_initialize_response req_id) s else s)
                 \<lparr>initialized := True\<rparr>))
       else if method = JStr (str ''tools/call'') then
         (if req_id \<noteq> JNull then backup_tools_call env s req req_id else Inr s)
       else
         Inr (if req_id \<noteq> JNull
              then emit (error_response req_id (str ''Unknown method: '' @ py_str env method)) s
              else s)))"

section \<open>The program xavier.py\<close>

text \<open>
  \<^verbatim>\<open>xavier.py\<close> has the loop and the dispatch of \<^verbatim>\<open>xjg.py\<close>, a fifth tool
  \<^verbatim>\<open>get_availability\<close>, and a longer weather tool. The non-ASCII characters of its string
  literals are the code points the file holds.
\<close>

subsection \<open>More Python operations\<close>

text \<open>
  The truth value of a decoded value; a float is false when it is \<open>0.0\<close> or \<open>-0.0\<close>, the
  patterns \<open>0\<close> and \<open>2 ^ 63\<close>.
\<close>

definition truthy :: "json \<Rightarrow> bool" where
  "truthy v =
     (case v of
        JNull \<Rightarrow> False
      | JBool b \<Rightarrow> b
      | JInt i \<Rightarrow> i \<noteq> 0
      | JFloat x \<Rightarrow> x \<noteq> 0 \<and> x \<noteq> 9223372036854775808
      | JStr s \<Rightarrow> s \<noteq> []
      | JArr xs \<Rightarrow> xs \<noteq> []
      | JObj kvs \<Rightarrow> kvs \<noteq> [])"

text \<open>\<^verbatim>\<open>len(v)\<close>, and the values \<^verbatim>\<open>for h in v\<close> goes through.\<close>

definition py_len :: "json \<Rightarrow> exn + nat" where
  "py_len v =
     (case v of
        JStr s \<Rightarrow> Inr (length s)
      | JArr xs \<Rightarrow> Inr (length xs)
      | JObj kvs \<Rightarrow> Inr (length kvs)
      | _ \<Rightarrow> Inl (TypeError v))"

definition py_iter :: "json \<Rightarrow> exn + json list" where
  "py_iter v =
     (case v of
        JArr xs \<Rightarrow> Inr xs
      | JStr s \<Rightarrow> Inr (map (\<lambda>c. JStr [c]) s)
      | JObj kvs \<Rightarrow> Inr (map (\<lambda>kv. JStr (fst kv)) kvs)
      | _ \<Rightarrow> Inl (TypeError v))"

text \<open>\<^verbatim>\<open>int(v)\<close>\<close>

definition py_int :: "env \<Rightarrow> json \<Rightarrow> exn + int" where
  "py_int env v =
     (case v of
        JInt i \<Rightarrow> Inr i
      | JBool b \<Rightarrow> Inr (if b then 1 else 0)
      | JStr s \<Rightarrow> (case int_of_str env s of None \<Rightarrow> Inl (ValueError v) | Some i \<Rightarrow> Inr i)
      | JFloat x \<Rightarrow> int_of_float env x
      | _ \<Rightarrow> Inl (TypeError v))"

text \<open>\<^verbatim>\<open>s.startswith(p)\<close>\<close>

definition startswith :: "pystr \<Rightarrow> pystr \<Rightarrow> bool" where
  "startswith s p = (take (length p) s = p)"

subsection \<open>The tools\<close>

text \<open>Lines 253 to 257: the report of word\_count, with the characters of this file.\<close>

definition xavier_word_count_result :: "pystr \<Rightarrow> pystr" where
  "xavier_word_count_result text =
     str ''Text Analysis:'' @ [10, 287, 376, 8220] @ str '' Words: '' @ dec_nat (word_count text)
     @ [10, 287, 376, 8221, 164] @ str '' Characters: '' @ dec_nat (char_count text)
     @ [10, 287, 376, 8221, 164] @ str '' Characters (no spaces): ''
     @ dec_nat (char_count_no_spaces text)
     @ [10, 287, 376, 8220, 8222] @ str '' Lines: '' @ dec_nat (line_count text)"

definition xavier_word_count_text :: "json \<Rightarrow> exn + pystr" where
  "xavier_word_count_text req =
     bnd (argument req (str ''text'') (JStr [])) (\<lambda>text.
     case text of
       JStr t \<Rightarrow> Inr (xavier_word_count_result t)
     | _ \<Rightarrow> Inl (AttributeError text (str ''strip'')))"

text \<open>
  Lines 268 to 272: the city asked for. A false \<^verbatim>\<open>city_arg\<close> gives the default; a true one
  must have \<^verbatim>\<open>strip\<close>, which only a str has. This is before the \<^verbatim>\<open>try\<close>.
\<close>

definition xavier_city :: "json \<Rightarrow> exn + pystr" where
  "xavier_city city_arg =
     (if \<not> truthy city_arg then Inr (str ''Frisco, Colorado'')
      else
        (case city_arg of
           JStr t \<Rightarrow> Inr (if strip t = [] then str ''Frisco, Colorado'' else strip t)
         | _ \<Rightarrow> Inl (AttributeError city_arg (str ''strip''))))"

text \<open>Line 288: \<^verbatim>\<open>[int(h["tempF"]) for h in hourly_today]\<close>, element by element.\<close>

fun temps_of :: "env \<Rightarrow> json list \<Rightarrow> exn + int list" where
  "temps_of env [] = Inr []"
| "temps_of env (h # hs) =
     bnd (getitem h (str ''tempF'')) (\<lambda>t.
     bnd (py_int env t) (\<lambda>i.
     bnd (temps_of env hs) (\<lambda>rest.
     Inr (i # rest))))"

text \<open>Lines 291 to 303: the pattern of the day, from its hourly temperatures.\<close>

definition xavier_pattern :: "int list \<Rightarrow> pystr" where
  "xavier_pattern temps_today =
     (case temps_today of
        [] \<Rightarrow> str ''Pattern data unavailable''
      | t # ts \<Rightarrow>
          (let max_temp = fold max ts t; min_temp = fold min ts t;
               temp_range = max_temp - min_temp
           in if temp_range > 20 then
                str ''Variable day: '' @ dec_int min_temp @ [194, 176] @ str ''F to ''
                @ dec_int max_temp @ [194, 176] @ str ''F swing''
              else if temp_range > 10 then
                str ''Moderate range: '' @ dec_int min_temp @ [194, 176] @ str ''F to ''
                @ dec_int max_temp @ [194, 176] @ str ''F''
              else
                str ''Steady temps: around '' @ dec_int max_temp @ [194, 176] @ str ''F''))"

text \<open>Lines 306 to 312: the summary of tomorrow.\<close>

definition xavier_tomorrow_summary :: "env \<Rightarrow> json \<Rightarrow> exn + pystr" where
  "xavier_tomorrow_summary env tomorrow_weather =
     (if truthy tomorrow_weather then
        bnd (getitem tomorrow_weather (str ''maxtempF'')) (\<lambda>tom_max.
        bnd (getitem tomorrow_weather (str ''mintempF'')) (\<lambda>tom_min.
        bnd (get tomorrow_weather (str ''hourly'') JNull) (\<lambda>hourly.
        bnd (if truthy hourly then
               bnd (getitem tomorrow_weather (str ''hourly'')) (\<lambda>hours.
               bnd (getitem_at hours 0) (\<lambda>hour.
               bnd (getitem hour (str ''weatherDesc'')) (\<lambda>descs.
               bnd (getitem_at descs 0) (\<lambda>desc.
               getitem desc (str ''value'')))))
             else Inr (JStr (str ''Unknown''))) (\<lambda>tom_desc.
        Inr (py_str env tom_desc @ str '', '' @ py_str env tom_min @ [194, 176] @ str ''F to ''
             @ py_str env tom_max @ [194, 176] @ str ''F'')))))
      else Inr (str ''Forecast unavailable''))"

text \<open>Lines 315 to 318: the closing note.\<close>

definition xavier_location_note :: "env \<Rightarrow> pystr \<Rightarrow> pystr" where
  "xavier_location_note env city =
     (if startswith (lower env city) (str ''frisco'') then
        str ''Perfect for your Frisco mountain planning! ''
        @ [287, 376, 8221, 239, 184, 226, 8222, 239, 184]
      else
        str ''Weather info for your '' @ city @ str '' travel planning! ''
        @ [226, 339, 710, 239, 184, 287, 376, 338])"

text \<open>
  Lines 281 to 331: the report built from the decoded document, statement by statement;
  the fields of \<^verbatim>\<open>current\<close> are read last, in the order of the f-string.
\<close>

definition xavier_weather_report :: "env \<Rightarrow> pystr \<Rightarrow> json \<Rightarrow> exn + pystr" where
  "xavier_weather_report env city weather_data =
     bnd (getitem weather_data (str ''current_condition'')) (\<lambda>conditions.
     bnd (getitem_at conditions 0) (\<lambda>current.
     bnd (getitem weather_data (str ''weather'')) (\<lambda>days.
     bnd (getitem_at days 0) (\<lambda>today_weather.
     bnd (py_len days) (\<lambda>n.
     bnd (if n > 1 then getitem_at days 1 else Inr JNull) (\<lambda>tomorrow_weather.
     bnd (get today_weather (str ''hourly'') (JArr [])) (\<lambda>hourly_today.
     bnd (py_iter hourly_today) (\<lambda>hours.
     bnd (temps_of env hours) (\<lambda>temps_today.
     bnd (xavier_tomorrow_summary env tomorrow_weather) (\<lambda>tomorrow_summary.
     bnd (getitem current (str ''temp_F'')) (\<lambda>temp_F.
     bnd (getitem current (str ''temp_C'')) (\<lambda>temp_C.
     bnd (getitem current (str ''weatherDesc'')) (\<lambda>descs.
     bnd (getitem_at descs 0) (\<lambda>desc.
     bnd (getitem desc (str ''value'')) (\<lambda>condition.
     bnd (getitem current (str ''windspeedMiles'')) (\<lambda>wind.
     bnd (getitem current (str ''winddir16Point'')) (\<lambda>direction.
     bnd (getitem current (str ''humidity'')) (\<lambda>humidity.
     bnd (getitem current (str ''visibility'')) (\<lambda>visibility.
     bnd (getitem current (str ''FeelsLikeF'')) (\<lambda>feels.
     Inr ([287, 376, 338, 164, 239, 184] @ str '' Weather for '' @ city @ str '':''
          @ [10, 287, 376, 338, 161, 239, 184] @ str '' Current: '' @ py_str env temp_F
          @ [194, 176] @ str ''F ('' @ py_str env temp_C @ [194, 176] @ str ''C)''
          @ [10, 287, 376, 338, 164, 239, 184] @ str '' Condition: '' @ py_str env condition
          @ [10, 287, 376, 8217, 168] @ str '' Wind: '' @ py_str env wind @ str '' mph from ''
          @ py_str env direction
          @ [10, 287, 376, 8217, 167] @ str '' Humidity: '' @ py_str env humidity @ str ''%''
          @ [10, 287, 376, 8216, 239, 184] @ str '' Visibility: '' @ py_str env visibility
          @ str '' miles''
          @ [10, 287, 376, 338, 161, 239, 184] @ str '' Feels like: '' @ py_str env feels
          @ [194, 176] @ str ''F''
          @ [10, 10, 287, 376, 8220, 710] @ str '' Today'' @ [39] @ str ''s Pattern: ''
          @ xavier_pattern temps_today
          @ [10, 287, 376, 8221, 174] @ str '' Tomorrow: '' @ tomorrow_summary
          @ [10, 10] @ xavier_location_note env city)))))))))))))))))))))"

text \<open>Line 334: the text when the status is not 200.\<close>

definition xavier_weather_sorry :: "pystr \<Rightarrow> pystr" where
  "xavier_weather_sorry city =
     [226, 338] @ str '' Sorry, couldn'' @ [39] @ str ''t get weather for '' @ city
     @ str ''. Try a different city name or check spelling!''"

text \<open>Lines 274 to 334, the body of the \<^verbatim>\<open>try\<close>, with the URL recorded when it is asked.\<close>

definition xavier_weather_try :: "env \<Rightarrow> state \<Rightarrow> pystr \<Rightarrow> (exn + pystr) \<times> state" where
  "xavier_weather_try env s city =
     (case quote env city of
        Inl e \<Rightarrow> (Inl e, s)
      | Inr city_encoded \<Rightarrow>
          ((case urlopen env (length (fetched s)) (weather_url city_encoded) 15 of
              Refused e \<Rightarrow> Inl e
            | Opened status body \<Rightarrow>
                if status = 200
                then bnd body (\<lambda>text.
                     bnd (loads env text) (\<lambda>weather_data.
                     xavier_weather_report env city weather_data))
                else Inr (xavier_weather_sorry city)),
           s\<lparr>fetched := fetched s @ [weather_url city_encoded]\<rparr>))"

text \<open>Lines 336 to 343: the four handlers of the \<^verbatim>\<open>try\<close>, in their order.\<close>

definition xavier_weather_info :: "env \<Rightarrow> pystr \<Rightarrow> exn + pystr \<Rightarrow> pystr" where
  "xavier_weather_info env city r =
     (case r of
        Inr info \<Rightarrow> info
      | Inl (URLError reason) \<Rightarrow>
          [287, 376, 338] @ str '' Network error getting weather for '' @ city @ str '': ''
          @ exc_str env (URLError reason)
      | Inl (JSONDecodeError text) \<Rightarrow>
          [226, 353, 160, 239, 184] @ str '' Error parsing weather data for '' @ city
          @ str '': Invalid response format''
      | Inl (KeyError k) \<Rightarrow>
          [226, 353, 160, 239, 184] @ str '' Incomplete weather data for '' @ city
          @ str '': Missing '' @ exc_str env (KeyError k)
      | Inl e \<Rightarrow>
          [226, 353, 160, 239, 184] @ str '' Error getting weather for '' @ city @ str '': ''
          @ exc_str env e)"

text \<open>
  Lines 353 to 392: the availability tool. Only a str has \<^verbatim>\<open>lower\<close>; the bare
  \<^verbatim>\<open>except\<close> around \<^verbatim>\<open>strptime\<close> falls back on today. The table is fixed.
\<close>

definition target_date :: "env \<Rightarrow> nat \<Rightarrow> pystr \<Rightarrow> int" where
  "target_date env n date_arg =
     (if lower env date_arg = str ''today'' then today env n
      else if lower env date_arg = str ''tomorrow'' then today env n + 1
      else (case strptime env date_arg of None \<Rightarrow> today env n | Some d \<Rightarrow> d))"

definition availability :: "pystr \<Rightarrow> pystr" where
  "availability day_name =
     [287, 376, 8220, 8230] @ str '' Availability for '' @ day_name @ str '':''
     @ [10, 10, 226, 339, 8230] @ str '' 08:00 AM - 08:30 AM - Available''
     @ [10, 226, 338] @ str '' 08:30 AM - 09:00 AM - Busy''
     @ [10, 226, 338] @ str '' 09:00 AM - 10:00 AM - Busy''
     @ [10, 226, 339, 8230] @ str '' 10:00 AM - 10:30 AM - Available''
     @ [10, 226, 338] @ str '' 10:30 AM - 10:55 AM - Busy''
     @ [10, 226, 338] @ str '' 10:55 AM - 11:00 AM - Busy''
     @ [10, 226, 338] @ str '' 11:00 AM - 11:15 AM - Busy''
     @ [10, 226, 339, 8230] @ str '' 11:15 AM - 11:45 AM - Available''
     @ [10, 226, 338] @ str '' 11:45 AM - 12:00 PM - Busy''
     @ [10, 226, 338] @ str '' 12:00 PM - 01:00 PM - Busy''
     @ [10, 226, 338] @ str '' 01:00 PM - 01:50 PM - Busy''
     @ [10, 226, 339, 8230] @ str '' 01:50 PM - 02:00 PM - Available''
     @ [10, 226, 338] @ str '' 02:00 PM - 02:25 PM - Busy''
     @ [10, 226, 339, 8230] @ str '' 02:25 PM - 02:30 PM - Available''
     @ [10, 226, 338] @ str '' 02:30 PM - 03:30 PM - Busy''
     @ [10, 226, 338] @ str '' 03:30 PM - 04:30 PM - Busy''
     @ [10, 226, 338] @ str '' 04:30 PM - 05:15 PM - Busy''
     @ [10, 226, 339, 8230] @ str '' 05:15 PM - 06:00 PM - Available''
     @ [10, 10, 287, 376, 8221, 8217] @ str '' Privacy protected - no meeting details shown''"

definition availability_text :: "env \<Rightarrow> state \<Rightarrow> json \<Rightarrow> exn + pystr" where
  "availability_text env s req =
     bnd (argument req (str ''date'') (JStr (str ''today''))) (\<lambda>date_arg.
     case date_arg of
       JStr d \<Rightarrow> Inr (availability (strftime env (target_date env (length (out s)) d)))
     | _ \<Rightarrow> Inl (AttributeError date_arg (str ''lower'')))"

subsection \<open>The declaration, the list and the dispatcher\<close>

definition availability_schema :: json where
  "availability_schema =
     object_schema
       (JObj [(str ''date'',
               JObj [(str ''type'', JStr (str ''string'')),
                     (str ''description'',
                      JStr (str ''Date to check - 'today', 'tomorrow', or YYYY-MM-DD format''))])])
       []"

definition availability_description :: pystr where
  "availability_description =
     str ''Get calendar availability (busy/free times) - privacy protected''"

text \<open>Lines 15 to 78 and lines 147 to 215.\<close>

definition xavier_tool_declaration :: json where
  "xavier_tool_declaration =
     JObj [(str ''jsonrpc'', JStr (str ''2.0'')),
           (str ''method'', JStr (str ''tools/declare'')),
           (str ''params'',
            JObj [(str ''tools'',
                   JObj [declared (str ''echo'') echo_description echo_schema,
                         declared (str ''reverse'') reverse_description text_schema,
                         declared (str ''word_count'') word_count_description text_schema,
                         declared (str ''weather'') weather_description weather_schema,
                         declared (str ''get_availability'') availability_description
                           availability_schema])])]"

definition xavier_tools_list :: "json list" where
  "xavier_tools_list =
     [descriptor (str ''echo'') echo_description echo_schema,
      descriptor (str ''reverse'') reverse_description text_schema,
      descriptor (str ''word_count'') word_count_description text_schema,
      descriptor (str ''weather'') weather_description weather_schema,
      descriptor (str ''get_availability'') availability_description availability_schema]"

definition xavier_tools_list_response :: "json \<Rightarrow> json" where
  "xavier_tools_list_response req_id =
     result_response req_id (JObj [(str ''tools'', JArr xavier_tools_list)])"

text \<open>Lines 222 to 412, the \<^verbatim>\<open>tools/call\<close> branch for a request with an id.\<close>

definition xavier_tools_call :: "env \<Rightarrow> state \<Rightarrow> json \<Rightarrow> json \<Rightarrow> exn + state" where
  "xavier_tools_call env s req req_id =
     bnd (get req (str ''params'') (JObj [])) (\<lambda>params.
     bnd (get params (str ''name'') JNull) (\<lambda>tool_name.
       if tool_name = JStr (str ''echo'') then
         bnd (echo_text env req) (\<lambda>text. Inr (emit (text_response req_id text) s))
       else if tool_name = JStr (str ''reverse'') then
         bnd (reverse_text env req) (\<lambda>text. Inr (emit (text_response req_id text) s))
       else if tool_name = JStr (str ''word_count'') then
         bnd (xavier_word_count_text req) (\<lambda>text. Inr (emit (text_response req_id text) s))
       else if tool_name = JStr (str ''weather'') then
         bnd (argument req (str ''city'') JNull) (\<lambda>city_arg.
         bnd (xavier_city city_arg) (\<lambda>city.
           case xavier_weather_try env s city of
             (r, s') \<Rightarrow> Inr (emit (text_response req_id (xavier_weather_info env city r)) s')))
       else if tool_name = JStr (str ''get_availability'') then
         bnd (availability_text env s req) (\<lambda>text. Inr (emit (text_response req_id text) s))
       else
         Inr (emit (error_response req_id (str ''Unknown tool: '' @ py_str env tool_name)) s)))"

text \<open>Lines 119 to 428: what one decoded message does to the state.\<close>

definition xavier_handle :: "env \<Rightarrow> state \<Rightarrow> json \<Rightarrow> exn + state" where
  "xavier_handle env s req =
     bnd (get req (str ''method'') JNull) (\<lambda>method.
     bnd (get req (str ''id'') JNull) (\<lambda>req_id.
       if method = JStr (str ''initialize'') then
         Inr (emit xavier_tool_declaration
               ((if req_id \<noteq> JNull then emit (initialize_response req_id) s else s)
                 \<lparr>initialized := True\<rparr>))
       else if method = JStr (str ''tools/list'') then
         Inr (if req_id \<noteq> JNull then emit (xavier_tools_list_response req_id) s else s)
       else if method = JStr (str ''tools/call'') then
         (if req_id \<noteq> JNull then xavier_tools_call env s req req_id else Inr s)
       else
         Inr (if req_id \<noteq> JNull
              then emit (error_response req_id (str ''Unknown method: '' @ py_str env method)) s
              else s)))"

section \<open>What a client observes\<close>

text \<open>
  The lines written between two states, and among lines the ids of the responses: a
  response is a line with an \<^verbatim>\<open>id\<close> member; the \<^verbatim>\<open>tools/declare\<close> notification has none.
\<close>

definition emitted :: "state \<Rightarrow> state \<Rightarrow> json list" where
  "emitted s s' = drop (length (out s)) (out s')"

definition response_ids :: "json list \<Rightarrow> json list" where
  "response_ids vs =
     concat (map (\<lambda>v. case v of
                        JObj kvs \<Rightarrow> (case map_of kvs (str ''id'') of None \<Rightarrow> [] | Some i \<Rightarrow> [i])
                      | _ \<Rightarrow> []) vs)"

definition state_of :: "proc \<Rightarrow> state" where
  "state_of p = (case p of Running s \<Rightarrow> s | Idle s \<Rightarrow> s | Exited r s \<Rightarrow> s)"

text \<open>The code and message of an error response, and the name of a tool descriptor.\<close>

definition error_of :: "json \<Rightarrow> (json \<times> json) option" where
  "error_of v =
     (case v of
        JObj kvs \<Rightarrow>
          (case map_of kvs (str ''error'') of
             Some (JObj e) \<Rightarrow> Some (lookup e (str ''code'') JNull, lookup e (str ''message'') JNull)
           | _ \<Rightarrow> None)
      | _ \<Rightarrow> None)"

definition descriptor_name :: "json \<Rightarrow> json" where
  "descriptor_name d = (case d of JObj kvs \<Rightarrow> lookup kvs (str ''name'') JNull | _ \<Rightarrow> JNull)"

text \<open>
  The two kinds of response as the client reads them, member by member: a result whose
  content is one text, and an error with a code and a message.
\<close>

abbreviation text_result :: "json \<Rightarrow> pystr \<Rightarrow> json" where
  "text_result rid t \<equiv>
     JObj [(str ''jsonrpc'', JStr (str ''2.0'')), (str ''id'', rid),
           (str ''result'',
            JObj [(str ''content'',
                   JArr [JObj [(str ''type'', JStr (str ''text'')), (str ''text'', JStr t)]])])]"

abbreviation error_result :: "json \<Rightarrow> int \<Rightarrow> pystr \<Rightarrow> json" where
  "error_result rid code message \<equiv>
     JObj [(str ''jsonrpc'', JStr (str ''2.0'')), (str ''id'', rid),
           (str ''error'', JObj [(str ''code'', JInt code), (str ''message'', JStr message)])]"

text \<open>A member of an object read by the client, and the members of an object in order.\<close>

definition member :: "json \<Rightarrow> pystr \<Rightarrow> json" where
  "member v k = (case v of JObj kvs \<Rightarrow> lookup kvs k JNull | _ \<Rightarrow> JNull)"

definition items :: "json \<Rightarrow> (pystr \<times> json) list" where
  "items v = (case v of JObj kvs \<Rightarrow> kvs | _ \<Rightarrow> [])"

subsection \<open>The members of a request\<close>

abbreviation method_of :: "(pystr \<times> json) list \<Rightarrow> json" where
  "method_of kvs \<equiv> lookup kvs (str ''method'') JNull"

abbreviation id_of :: "(pystr \<times> json) list \<Rightarrow> json" where
  "id_of kvs \<equiv> lookup kvs (str ''id'') JNull"

abbreviation params_of :: "(pystr \<times> json) list \<Rightarrow> json" where
  "params_of kvs \<equiv> lookup kvs (str ''params'') (JObj [])"

abbreviation name_of :: "(pystr \<times> json) list \<Rightarrow> json" where
  "name_of ps \<equiv> lookup ps (str ''name'') JNull"

abbreviation arguments_of :: "(pystr \<times> json) list \<Rightarrow> json" where
  "arguments_of ps \<equiv> lookup ps (str ''arguments'') (JObj [])"

definition is_dict :: "json \<Rightarrow> bool" where
  "is_dict v = (case v of JObj kvs \<Rightarrow> True | _ \<Rightarrow> False)"

definition is_text :: "json \<Rightarrow> bool" where
  "is_text v = (case v of JStr t \<Rightarrow> True | _ \<Rightarrow> False)"

definition is_sequence :: "json \<Rightarrow> bool" where
  "is_sequence v = (case v of JStr t \<Rightarrow> True | JArr xs \<Rightarrow> True | _ \<Rightarrow> False)"

text \<open>
  The types the \<^verbatim>\<open>tools/call\<close> branch of \<^verbatim>\<open>xjg.py\<close> relies on without checking them:
  \<^verbatim>\<open>params\<close> a dict; for a tool it knows, \<^verbatim>\<open>arguments\<close> a dict; for \<^verbatim>\<open>reverse\<close> a
  \<^verbatim>\<open>text\<close> that can be sliced; for \<^verbatim>\<open>word_count\<close> a \<^verbatim>\<open>text\<close> that is a str. A
  missing member has its default, which is of the right type.
\<close>

definition call_typed :: "(pystr \<times> json) list \<Rightarrow> bool" where
  "call_typed kvs =
     (case params_of kvs of
        JObj ps \<Rightarrow>
          (if name_of ps = JStr (str ''echo'') \<or> name_of ps = JStr (str ''weather'') then
             is_dict (arguments_of ps)
           else if name_of ps = JStr (str ''reverse'') then
             (case arguments_of ps of
                JObj args \<Rightarrow> is_sequence (lookup args (str ''text'') (JStr []))
              | _ \<Rightarrow> False)
           else if name_of ps = JStr (str ''word_count'') then
             (case arguments_of ps of
                JObj args \<Rightarrow> is_text (lookup args (str ''text'') (JStr []))
              | _ \<Rightarrow> False)
           else True)
      | _ \<Rightarrow> False)"

text \<open>
  The types the \<^verbatim>\<open>tools/call\<close> branch of \<^verbatim>\<open>xavier.py\<close> relies on: as above for
  \<^verbatim>\<open>echo\<close>, \<^verbatim>\<open>reverse\<close> and \<^verbatim>\<open>word_count\<close>; for \<^verbatim>\<open>weather\<close> a \<^verbatim>\<open>city\<close> that is false
  or a str; for \<^verbatim>\<open>get_availability\<close> a \<^verbatim>\<open>date\<close> that is a str.
\<close>

definition xavier_call_typed :: "(pystr \<times> json) list \<Rightarrow> bool" where
  "xavier_call_typed kvs =
     (case params_of kvs of
        JObj ps \<Rightarrow>
          (if name_of ps = JStr (str ''echo'') then
             is_dict (arguments_of ps)
           else if name_of ps = JStr (str ''reverse'') then
             (case arguments_of ps of
                JObj args \<Rightarrow> is_sequence (lookup args (str ''text'') (JStr []))
              | _ \<Rightarrow> False)
           else if name_of ps = JStr (str ''word_count'') then
             (case arguments_of ps of
                JObj args \<Rightarrow> is_text (lookup args (str ''text'') (JStr []))
              | _ \<Rightarrow> False)
           else if name_of ps = JStr (str ''weather'') then
             (case arguments_of ps of
                JObj args \<Rightarrow>
                  (if truthy (lookup args (str ''city'') JNull)
                   then is_text (lookup args (str ''city'') JNull) else True)
              | _ \<Rightarrow> False)
           else if name_of ps = JStr (str ''get_availability'') then
             (case arguments_of ps of
                JObj args \<Rightarrow> is_text (lookup args (str ''date'') (JStr (str ''today'')))
              | _ \<Rightarrow> False)
           else True)
      | _ \<Rightarrow> False)"

definition request_typed :: "(pystr \<times> json) list \<Rightarrow> bool" where
  "request_typed kvs =
     (if method_of kvs = JStr (str ''tools/call'') \<and> id_of kvs \<noteq> JNull
      then call_typed kvs else True)"

text \<open>
  A line that the loop decodes to an \<^verbatim>\<open>initialize\<close> message, and whether one is among
  the lines read so far.
\<close>

definition is_initialize :: "env \<Rightarrow> pystr \<Rightarrow> bool" where
  "is_initialize env line =
     (line \<noteq> [] \<and> strip line \<noteq> []
      \<and> (case loads env (strip line) of
            Inr (JObj kvs) \<Rightarrow> method_of kvs = JStr (str ''initialize'')
          | _ \<Rightarrow> False))"

definition initialize_seen :: "env \<Rightarrow> event list \<Rightarrow> bool" where
  "initialize_seen env evs =
     list_ex (\<lambda>ev. case ev of Read line \<Rightarrow> is_initialize env line | _ \<Rightarrow> False) evs"

section \<open>A sample session\<close>

text \<open>
  Concrete messages, with the value \<^verbatim>\<open>json.loads\<close> gives for each, and an environment
  that decodes exactly these texts. \<open>as_line\<close> is the text as \<^verbatim>\<open>readline\<close> returns it.
\<close>

definition as_line :: "pystr \<Rightarrow> pystr" where
  "as_line text = text @ [10]"

definition text_initialize :: pystr where
  \<open>text_initialize = str ''{"jsonrpc": "2.0", "id": 0, "method": "initialize"}''\<close>

definition req_initialize :: "(pystr \<times> json) list" where
  "req_initialize =
     [(str ''jsonrpc'', JStr (str ''2.0'')), (str ''id'', JInt 0),
      (str ''method'', JStr (str ''initialize''))]"

definition text_initialized :: pystr where
  \<open>text_initialized = str ''{"jsonrpc": "2.0", "method": "initialize"}''\<close>

definition req_initialized :: "(pystr \<times> json) list" where
  "req_initialized =
     [(str ''jsonrpc'', JStr (str ''2.0'')), (str ''method'', JStr (str ''initialize''))]"

definition text_tools_list :: pystr where
  \<open>text_tools_list = str ''{"jsonrpc": "2.0", "id": 2, "method": "tools/list"}''\<close>

definition req_tools_list :: "(pystr \<times> json) list" where
  "req_tools_list =
     [(str ''jsonrpc'', JStr (str ''2.0'')), (str ''id'', JInt 2),
      (str ''method'', JStr (str ''tools/list''))]"

definition text_echo :: pystr where
  \<open>text_echo =
     str ''{"id": "a1", "method": "tools/call", "params": {"name": "echo", "arguments": {"message": "hi"}}}''\<close>

definition req_echo :: "(pystr \<times> json) list" where
  "req_echo =
     [(str ''id'', JStr (str ''a1'')), (str ''method'', JStr (str ''tools/call'')),
      (str ''params'', JObj [(str ''name'', JStr (str ''echo'')),
                             (str ''arguments'', JObj [(str ''message'', JStr (str ''hi''))])])]"

definition text_reverse_5 :: pystr where
  \<open>text_reverse_5 =
     str ''{"id": 7, "method": "tools/call", "params": {"name": "reverse", "arguments": {"text": 5}}}''\<close>

definition req_reverse_5 :: "(pystr \<times> json) list" where
  "req_reverse_5 =
     [(str ''id'', JInt 7), (str ''method'', JStr (str ''tools/call'')),
      (str ''params'', JObj [(str ''name'', JStr (str ''reverse'')),
                             (str ''arguments'', JObj [(str ''text'', JInt 5)])])]"

text \<open>A weather call for a city, with the id given (\<open>JNull\<close>: no id member).\<close>

definition req_weather :: "json \<Rightarrow> pystr \<Rightarrow> (pystr \<times> json) list" where
  "req_weather req_id city =
     (if req_id = JNull then [] else [(str ''id'', req_id)])
     @ [(str ''method'', JStr (str ''tools/call'')),
        (str ''params'', JObj [(str ''name'', JStr (str ''weather'')),
                               (str ''arguments'', JObj [(str ''city'', JStr city)])])]"

definition text_weather_notification :: pystr where
  \<open>text_weather_notification =
     str ''{"method": "tools/call", "params": {"name": "weather", "arguments": {"city": "Denver"}}}''\<close>

definition text_weather_call :: pystr where
  \<open>text_weather_call =
     str ''{"id": 3, "method": "tools/call", "params": {"name": "weather", "arguments": {"city": "Denver"}}}''\<close>

definition req_weather_untyped :: "(pystr \<times> json) list" where
  "req_weather_untyped =
     [(str ''id'', JInt 4), (str ''method'', JStr (str ''tools/call'')),
      (str ''params'', JObj [(str ''name'', JStr (str ''weather'')),
                             (str ''arguments'', JStr (str ''Denver''))])]"

text \<open>A weather call with id 8 whose \<^verbatim>\<open>city\<close> is the number 5.\<close>

definition req_weather_city_5 :: "(pystr \<times> json) list" where
  "req_weather_city_5 =
     [(str ''id'', JInt 8), (str ''method'', JStr (str ''tools/call'')),
      (str ''params'', JObj [(str ''name'', JStr (str ''weather'')),
                             (str ''arguments'', JObj [(str ''city'', JInt 5)])])]"

definition text_unknown_tool :: pystr where
  \<open>text_unknown_tool = str ''{"id": 5, "method": "tools/call", "params": {"name": "nope"}}''\<close>

definition req_unknown_tool :: "(pystr \<times> json) list" where
  "req_unknown_tool =
     [(str ''id'', JInt 5), (str ''method'', JStr (str ''tools/call'')),
      (str ''params'', JObj [(str ''name'', JStr (str ''nope''))])]"

text \<open>A call whose \<^verbatim>\<open>params\<close> is null, and a call that names the tool 5.\<close>

definition text_params_null :: pystr where
  \<open>text_params_null = str ''{"id": 1, "method": "tools/call", "params": null}''\<close>

definition req_params_null :: "(pystr \<times> json) list" where
  "req_params_null =
     [(str ''id'', JInt 1), (str ''method'', JStr (str ''tools/call'')),
      (str ''params'', JNull)]"

definition text_unknown_tool_5 :: pystr where
  \<open>text_unknown_tool_5 = str ''{"id": 9, "method": "tools/call", "params": {"name": 5}}''\<close>

definition req_unknown_tool_5 :: "(pystr \<times> json) list" where
  "req_unknown_tool_5 =
     [(str ''id'', JInt 9), (str ''method'', JStr (str ''tools/call'')),
      (str ''params'', JObj [(str ''name'', JInt 5)])]"

definition text_unknown_method :: pystr where
  \<open>text_unknown_method = str ''{"id": 6, "method": "ping"}''\<close>

definition req_unknown_method :: "(pystr \<times> json) list" where
  "req_unknown_method = [(str ''id'', JInt 6), (str ''method'', JStr (str ''ping''))]"

definition text_array :: pystr where
  "text_array = str ''[]''"

definition text_malformed :: pystr where
  "text_malformed = str ''{broken''"

text \<open>The document the sample weather service returns for Denver.\<close>

definition text_conditions :: pystr where
  \<open>text_conditions =
     str ''{"current_condition": [{"temp_F": "41", "temp_C": "5", "weatherDesc": [{"value": "Sunny"}], "windspeedMiles": "7", "humidity": "30", "visibility": "9"}]}''\<close>

definition conditions :: json where
  "conditions =
     JObj [(str ''current_condition'',
            JArr [JObj [(str ''temp_F'', JStr (str ''41'')), (str ''temp_C'', JStr (str ''5'')),
                        (str ''weatherDesc'', JArr [JObj [(str ''value'', JStr (str ''Sunny''))]]),
                        (str ''windspeedMiles'', JStr (str ''7'')),
                        (str ''humidity'', JStr (str ''30'')),
                        (str ''visibility'', JStr (str ''9''))]])]"

text \<open>
  The sample decoder knows the texts above; a text of 1100 opening brackets exhausts the
  recursion limit, and every other text is reported as no JSON.
\<close>

definition text_deep :: pystr where
  "text_deep = replicate 1100 91"

definition sample_loads :: "pystr \<Rightarrow> exn + json" where
  "sample_loads text =
     (if text = text_deep then Inl RecursionError
      else
        case
          map_of [(text_initialize, JObj req_initialize),
                  (text_initialized, JObj req_initialized),
                  (text_tools_list, JObj req_tools_list),
                  (text_echo, JObj req_echo),
                  (text_reverse_5, JObj req_reverse_5),
                  (text_weather_notification, JObj (req_weather JNull (str ''Denver''))),
                  (text_weather_call, JObj (req_weather (JInt 3) (str ''Denver''))),
                  (text_unknown_tool, JObj req_unknown_tool),
                  (text_unknown_method, JObj req_unknown_method),
                  (text_array, JArr []),
                  (text_params_null, JObj req_params_null),
                  (text_unknown_tool_5, JObj req_unknown_tool_5),
                  (text_conditions, conditions),
                  (str ''{}'', JObj [])] text
        of None \<Rightarrow> Inl (JSONDecodeError text) | Some v \<Rightarrow> Inr v)"

text \<open>
  The sample network: Denver has a full report, Atlantis an empty document, Garbled a
  page that is no JSON, and nothing else can be reached.
\<close>

definition sample_urlopen :: "nat \<Rightarrow> pystr \<Rightarrow> nat \<Rightarrow> fetch" where
  "sample_urlopen n url timeout =
     (if url = weather_url (str ''Denver'') then Opened 200 (Inr text_conditions)
      else if url = weather_url (str ''Atlantis'') then Opened 200 (Inr (str ''{}''))
      else if url = weather_url (str ''Garbled'') then Opened 200 (Inr (str ''<html>''))
      else Refused (URLError (str ''timed out'')))"

definition sample_exc_str :: "exn \<Rightarrow> pystr" where
  "sample_exc_str e =
     (case e of
        URLError reason \<Rightarrow> str ''<urlopen error '' @ reason @ str ''>''
      | KeyError (JStr k) \<Rightarrow> [39] @ k @ [39]
      | JSONDecodeError t \<Rightarrow> str ''Expecting value: line 1 column 1 (char 0)''
      | _ \<Rightarrow> str ''error'')"

text \<open>
  The sample library: numerals of decimal digits are read as integers, ASCII letters are
  lowered, the clock stands at 1 January 1970 (day 0), and no date text is parsed.
\<close>

definition sample_int_of_str :: "pystr \<Rightarrow> int option" where
  "sample_int_of_str s =
     (if s \<noteq> [] \<and> list_all (\<lambda>c. 48 \<le> c \<and> c \<le> 57) s
      then Some (int (foldl (\<lambda>a c. 10 * a + (c - 48)) 0 s)) else None)"

definition sample_lower :: "pystr \<Rightarrow> pystr" where
  "sample_lower s = map (\<lambda>c. if 65 \<le> c \<and> c \<le> 90 then c + 32 else c) s"

definition sample_strftime :: "int \<Rightarrow> pystr" where
  "sample_strftime d =
     (if d = 1 then str ''Friday, January 02, 1970'' else str ''Thursday, January 01, 1970'')"

definition sample_env :: env where
  "sample_env =
     \<lparr>loads = sample_loads,
      py_repr = (\<lambda>v. str ''[]''),
      exc_str = sample_exc_str,
      quote = (\<lambda>s. Inr s),
      urlopen = sample_urlopen,
      int_of_str = sample_int_of_str,
      int_of_float = (\<lambda>x. Inl (ValueError (JFloat x))),
      lower = sample_lower,
      today = (\<lambda>n. 0),
      strptime = (\<lambda>s. None),
      strftime = sample_strftime\<rparr>"
section \<open>Lemmas\<close>

lemma bnd_Inl [simp]: "bnd (Inl e) f = Inl e"
  by (simp add: bnd_def)

lemma bnd_Inr [simp]: "bnd (Inr x) f = f x"
  by (simp add: bnd_def)

lemma bnd_assoc: "bnd (bnd m f) g = bnd m (\<lambda>x. bnd (f x) g)"
  by (cases m) simp_all

lemma str_eq_iff [simp]: "str a = str b \<longleftrightarrow> a = b"
proof -
  have "inj (of_char :: char \<Rightarrow> nat)"
    by (rule injI) simp
  then show ?thesis
    unfolding str_def by (simp add: inj_map_eq_map)
qed

lemma get_JObj [simp]: "get (JObj kvs) k d = Inr (lookup kvs k d)"
  by (simp add: get_def)

lemma get_other [simp]:
  "get JNull k d = Inl (AttributeError JNull (str ''get''))"
  "get (JBool b) k d = Inl (AttributeError (JBool b) (str ''get''))"
  "get (JInt i) k d = Inl (AttributeError (JInt i) (str ''get''))"
  "get (JFloat x) k d = Inl (AttributeError (JFloat x) (str ''get''))"
  "get (JStr t) k d = Inl (AttributeError (JStr t) (str ''get''))"
  "get (JArr xs) k d = Inl (AttributeError (JArr xs) (str ''get''))"
  by (simp_all add: get_def)

lemma emitted_same [simp]: "emitted s s = []"
  by (simp add: emitted_def)

lemma out_emit [simp]: "out (emit v s) = out s @ [v]"
  by (simp add: emit_def)

lemma response_ids_append [simp]: "response_ids (vs @ ws) = response_ids vs @ response_ids ws"
  by (simp add: response_ids_def)

lemma response_ids_simps [simp]:
  "response_ids [] = []"
  "response_ids (text_response rid t # vs) = rid # response_ids vs"
  "response_ids (error_response rid m # vs) = rid # response_ids vs"
  "response_ids (initialize_response rid # vs) = rid # response_ids vs"
  "response_ids (tools_list_response rid # vs) = rid # response_ids vs"
  "response_ids (tool_declaration # vs) = response_ids vs"
  by (simp_all add: response_ids_def text_response_def error_response_def result_response_def
      initialize_response_def tools_list_response_def tool_declaration_def lookup_def)

lemma get_not_dict: "\<not> is_dict d \<Longrightarrow> get d k dflt = Inl (AttributeError d (str ''get''))"
  by (cases d) (simp_all add: is_dict_def)

lemma is_dictE: "is_dict d \<Longrightarrow> (\<And>kvs. d = JObj kvs \<Longrightarrow> P) \<Longrightarrow> P"
  by (cases d) (simp_all add: is_dict_def)

lemma argument_dicts:
  "lookup kvs (str ''params'') (JObj []) = JObj ps \<Longrightarrow>
   lookup ps (str ''arguments'') (JObj []) = JObj args \<Longrightarrow>
   argument (JObj kvs) k d = Inr (lookup args k d)"
  by (simp add: argument_def)

lemma argument_no_dict:
  "lookup kvs (str ''params'') (JObj []) = JObj ps \<Longrightarrow>
   \<not> is_dict (lookup ps (str ''arguments'') (JObj [])) \<Longrightarrow>
   argument (JObj kvs) k d = Inl (AttributeError (lookup ps (str ''arguments'') (JObj [])) (str ''get''))"
  by (simp add: argument_def get_not_dict)

lemma tools_call_echo:
  assumes "params_of kvs = JObj ps" "name_of ps = JStr (str ''echo'')"
    "arguments_of ps = JObj args"
  shows "tools_call env s (JObj kvs) rid =
    Inr (emit (text_response rid
      (str ''Echo: '' @ py_str env (lookup args (str ''message'') (JStr [])))) s)"
  using assms by (simp add: tools_call_def echo_text_def argument_def)

lemma tools_call_reverse:
  assumes "params_of kvs = JObj ps" "name_of ps = JStr (str ''reverse'')"
    "arguments_of ps = JObj args"
  shows "tools_call env s (JObj kvs) rid =
    bnd (reversed (lookup args (str ''text'') (JStr []))) (\<lambda>r.
      Inr (emit (text_response rid (str ''Reversed: '' @ py_str env r)) s))"
  using assms by (simp add: tools_call_def reverse_text_def argument_def bnd_assoc)

lemma tools_call_word_count:
  assumes "params_of kvs = JObj ps" "name_of ps = JStr (str ''word_count'')"
    "arguments_of ps = JObj args" "lookup args (str ''text'') (JStr []) = JStr t"
  shows "tools_call env s (JObj kvs) rid =
    Inr (emit (text_response rid (word_count_result t)) s)"
  using assms by (simp add: tools_call_def word_count_text_def argument_def)

lemma tools_call_weather:
  assumes "params_of kvs = JObj ps" "name_of ps = JStr (str ''weather'')"
    "arguments_of ps = JObj args"
  shows "tools_call env s (JObj kvs) rid =
    Inr (emit (text_response rid
           (weather_info env
             (fst (weather_try env s (lookup args (str ''city'') (JStr (str ''Frisco, Colorado'')))))))
         (snd (weather_try env s (lookup args (str ''city'') (JStr (str ''Frisco, Colorado''))))))"
  using assms by (simp add: tools_call_def argument_def split: prod.splits)

lemma tools_call_unknown:
  assumes "params_of kvs = JObj ps"
    "name_of ps \<noteq> JStr (str ''echo'')" "name_of ps \<noteq> JStr (str ''reverse'')"
    "name_of ps \<noteq> JStr (str ''word_count'')" "name_of ps \<noteq> JStr (str ''weather'')"
  shows "tools_call env s (JObj kvs) rid =
    Inr (emit (error_response rid (str ''Unknown tool: '' @ py_str env (name_of ps))) s)"
  using assms by (simp add: tools_call_def)

lemma tools_call_no_params:
  assumes "\<not> is_dict (params_of kvs)"
  shows "tools_call env s (JObj kvs) rid = Inl (AttributeError (params_of kvs) (str ''get''))"
  using assms by (simp add: tools_call_def get_not_dict)

lemma tools_call_no_arguments:
  assumes "params_of kvs = JObj ps" "\<not> is_dict (arguments_of ps)"
    "name_of ps = JStr (str ''echo'') \<or> name_of ps = JStr (str ''reverse'')
     \<or> name_of ps = JStr (str ''word_count'') \<or> name_of ps = JStr (str ''weather'')"
  shows "tools_call env s (JObj kvs) rid = Inl (AttributeError (arguments_of ps) (str ''get''))"
  using assms
  by (auto simp: tools_call_def echo_text_def reverse_text_def word_count_text_def
      argument_def get_not_dict)

lemma out_weather_try [simp]: "out (snd (weather_try env s city)) = out s"
  by (simp add: weather_try_def Let_def split: sum.splits)

lemma initialized_weather_try [simp]:
  "initialized (snd (weather_try env s city)) = initialized s"
  by (simp add: weather_try_def Let_def split: sum.splits)

lemma reversed_sequence:
  "is_sequence v \<Longrightarrow> \<exists>r. reversed v = Inr r"
  by (cases v) (simp_all add: is_sequence_def reversed_def)

lemma reversed_other:
  "\<not> is_sequence v \<Longrightarrow> reversed v = Inl (TypeError v)"
  by (cases v) (simp_all add: is_sequence_def reversed_def)

lemma tools_call_not_text:
  assumes "params_of kvs = JObj ps" "name_of ps = JStr (str ''word_count'')"
    "arguments_of ps = JObj args" "\<not> is_text (lookup args (str ''text'') (JStr []))"
  shows "tools_call env s (JObj kvs) rid =
    Inl (AttributeError (lookup args (str ''text'') (JStr [])) (str ''strip''))"
  using assms
  by (cases "lookup args (str ''text'') (JStr [])")
     (simp_all add: tools_call_def word_count_text_def argument_def is_text_def)

lemma emitted_one [simp]: "out s0 = out s \<Longrightarrow> emitted s (emit v s0) = [v]"
  by (simp add: emitted_def emit_def)

lemma initialized_emit [simp]: "initialized (emit v s) = initialized s"
  by (simp add: emit_def)

text \<open>A typed call writes one line, a response to the request, and nothing else.\<close>

lemma tools_call_typed:
  assumes "call_typed kvs"
  shows "\<exists>s'. tools_call env s (JObj kvs) rid = Inr s' \<and> response_ids (emitted s s') = [rid]
           \<and> initialized s' = initialized s"
proof -
  from assms obtain ps where ps: "params_of kvs = JObj ps"
    by (cases "params_of kvs") (simp_all add: call_typed_def)
  consider (echo) "name_of ps = JStr (str ''echo'')"
    | (reverse) "name_of ps = JStr (str ''reverse'')"
    | (word_count) "name_of ps = JStr (str ''word_count'')"
    | (weather) "name_of ps = JStr (str ''weather'')"
    | (unknown) "name_of ps \<noteq> JStr (str ''echo'')" "name_of ps \<noteq> JStr (str ''reverse'')"
        "name_of ps \<noteq> JStr (str ''word_count'')" "name_of ps \<noteq> JStr (str ''weather'')"
    by blast
  then show ?thesis
  proof cases
    case echo
    with assms ps obtain args where "arguments_of ps = JObj args"
      by (auto simp: call_typed_def elim: is_dictE)
    then show ?thesis
      by (simp add: tools_call_echo [OF ps echo])
  next
    case reverse
    with assms ps obtain args where args: "arguments_of ps = JObj args"
      and "is_sequence (lookup args (str ''text'') (JStr []))"
      by (cases "arguments_of ps") (simp_all add: call_typed_def)
    then obtain r where "reversed (lookup args (str ''text'') (JStr [])) = Inr r"
      using reversed_sequence by blast
    then show ?thesis
      by (simp add: tools_call_reverse [OF ps reverse args])
  next
    case word_count
    with assms ps obtain args where args: "arguments_of ps = JObj args"
      and "is_text (lookup args (str ''text'') (JStr []))"
      by (cases "arguments_of ps") (simp_all add: call_typed_def)
    then obtain t where "lookup args (str ''text'') (JStr []) = JStr t"
      by (cases "lookup args (str ''text'') (JStr [])") (simp_all add: is_text_def)
    then show ?thesis
      by (simp add: tools_call_word_count [OF ps word_count args])
  next
    case weather
    with assms ps obtain args where "arguments_of ps = JObj args"
      by (auto simp: call_typed_def elim: is_dictE)
    then show ?thesis
      by (simp add: tools_call_weather [OF ps weather])
  next
    case unknown
    then show ?thesis
      by (simp add: tools_call_unknown [OF ps])
  qed
qed

text \<open>An ill-typed call raises before anything is written.\<close>

lemma tools_call_untyped:
  assumes "\<not> call_typed kvs"
  shows "\<exists>e. tools_call env s (JObj kvs) rid = Inl e \<and> (\<forall>t. e \<noteq> JSONDecodeError t)"
proof (cases "is_dict (params_of kvs)")
  case False
  then show ?thesis by (simp add: tools_call_no_params)
next
  case True
  then obtain ps where ps: "params_of kvs = JObj ps"
    by (rule is_dictE)
  with assms have known: "name_of ps = JStr (str ''echo'') \<or> name_of ps = JStr (str ''reverse'')
     \<or> name_of ps = JStr (str ''word_count'') \<or> name_of ps = JStr (str ''weather'')"
    by (auto simp: call_typed_def split: if_splits)
  show ?thesis
  proof (cases "is_dict (arguments_of ps)")
    case False
    from tools_call_no_arguments [OF ps False known] show ?thesis by simp
  next
    case True
    then obtain args where args: "arguments_of ps = JObj args"
      by (rule is_dictE)
    with assms ps have
      "(name_of ps = JStr (str ''reverse'') \<and> \<not> is_sequence (lookup args (str ''text'') (JStr [])))
       \<or> (name_of ps = JStr (str ''word_count'') \<and> \<not> is_text (lookup args (str ''text'') (JStr [])))"
      by (auto simp: call_typed_def is_dict_def split: if_splits)
    then show ?thesis
    proof
      assume r: "name_of ps = JStr (str ''reverse'') \<and> \<not> is_sequence (lookup args (str ''text'') (JStr []))"
      with tools_call_reverse [OF ps _ args, of env s rid] show ?thesis
        by (simp add: reversed_other)
    next
      assume w: "name_of ps = JStr (str ''word_count'') \<and> \<not> is_text (lookup args (str ''text'') (JStr []))"
      with tools_call_not_text [OF ps _ args, of env s rid] show ?thesis
        by simp
    qed
  qed
qed

lemma handle_initialize:
  "method_of kvs = JStr (str ''initialize'') \<Longrightarrow>
   handle env s (JObj kvs) =
     Inr (s\<lparr>initialized := True,
            out := out s @ (if id_of kvs \<noteq> JNull then [initialize_response (id_of kvs)] else [])
                   @ [tool_declaration]\<rparr>)"
  by (simp add: handle_def send_tool_declaration_def emit_def)

lemma handle_tools_list:
  "method_of kvs = JStr (str ''tools/list'') \<Longrightarrow>
   handle env s (JObj kvs) =
     Inr (if id_of kvs \<noteq> JNull then emit (tools_list_response (id_of kvs)) s else s)"
  by (simp add: handle_def)

lemma handle_tools_call:
  "method_of kvs = JStr (str ''tools/call'') \<Longrightarrow>
   handle env s (JObj kvs) =
     (if id_of kvs \<noteq> JNull then tools_call env s (JObj kvs) (id_of kvs) else Inr s)"
  by (simp add: handle_def)

lemma handle_other:
  "method_of kvs \<noteq> JStr (str ''initialize'') \<Longrightarrow> method_of kvs \<noteq> JStr (str ''tools/list'') \<Longrightarrow>
   method_of kvs \<noteq> JStr (str ''tools/call'') \<Longrightarrow>
   handle env s (JObj kvs) =
     Inr (if id_of kvs \<noteq> JNull
          then emit (error_response (id_of kvs) (str ''Unknown method: '' @ py_str env (method_of kvs))) s
          else s)"
  by (simp add: handle_def)

lemma handle_not_dict:
  "\<not> is_dict v \<Longrightarrow> handle env s v = Inl (AttributeError v (str ''get''))"
  by (simp add: handle_def get_not_dict)

lemma iteration_returned:
  assumes "line \<noteq> []" "strip line \<noteq> []" "loads env (strip line) = Inr req"
    "dispatch env s req = Inr s'"
  shows "iteration dispatch env s line = Running s'"
  using assms by (simp add: iteration_def)

lemma iteration_raised:
  assumes "line \<noteq> []" "strip line \<noteq> []" "loads env (strip line) = Inr req"
    "dispatch env s req = Inl e" "\<forall>t. e \<noteq> JSONDecodeError t"
  shows "iteration dispatch env s line = Exited (Fatal e) s"
  using assms by (cases e) (simp_all add: iteration_def)

lemma iteration_undecoded:
  assumes "line \<noteq> []" "loads env (strip line) = Inl (JSONDecodeError t)"
  shows "iteration dispatch env s line = Running s"
  using assms by (simp add: iteration_def)

lemma iteration_decoder_raised:
  assumes "line \<noteq> []" "strip line \<noteq> []" "loads env (strip line) = Inl e"
    "\<forall>t. e \<noteq> JSONDecodeError t"
  shows "iteration dispatch env s line = Exited (Fatal e) s"
  using assms by (cases e) (simp_all add: iteration_def)

text \<open>What a typed request does: one response when it has an id, none otherwise.\<close>

lemma handle_typed:
  assumes "request_typed kvs"
  shows "\<exists>s'. handle env s (JObj kvs) = Inr s'
     \<and> response_ids (emitted s s') = (if id_of kvs \<noteq> JNull then [id_of kvs] else [])"
proof -
  consider (init) "method_of kvs = JStr (str ''initialize'')"
    | (list) "method_of kvs = JStr (str ''tools/list'')"
    | (call) "method_of kvs = JStr (str ''tools/call'')"
    | (other) "method_of kvs \<noteq> JStr (str ''initialize'')"
        "method_of kvs \<noteq> JStr (str ''tools/list'')" "method_of kvs \<noteq> JStr (str ''tools/call'')"
    by blast
  then show ?thesis
  proof cases
    case init
    then show ?thesis by (simp add: handle_initialize emitted_def)
  next
    case list
    then show ?thesis by (simp add: handle_tools_list)
  next
    case call
    show ?thesis
    proof (cases "id_of kvs = JNull")
      case True
      with call show ?thesis by (simp add: handle_tools_call)
    next
      case False
      with call assms have "call_typed kvs" by (simp add: request_typed_def)
      from tools_call_typed [OF this, of env s "id_of kvs"] call False show ?thesis
        by (auto simp: handle_tools_call)
    qed
  next
    case other
    then show ?thesis by (simp add: handle_other)
  qed
qed

lemma handle_untyped:
  assumes "\<not> request_typed kvs"
  shows "\<exists>e. handle env s (JObj kvs) = Inl e \<and> (\<forall>t. e \<noteq> JSONDecodeError t)"
proof -
  from assms have "method_of kvs = JStr (str ''tools/call'')" "id_of kvs \<noteq> JNull" "\<not> call_typed kvs"
    by (simp_all add: request_typed_def split: if_splits)
  with tools_call_untyped [of kvs env s "id_of kvs"] show ?thesis
    by (simp add: handle_tools_call)
qed

lemma str_Nil_iff [simp]: "str cs = [] \<longleftrightarrow> cs = []"
  by (simp add: str_def)

lemma backup_handle_other:
  "method_of kvs \<noteq> JStr (str ''initialize'') \<Longrightarrow> method_of kvs \<noteq> JStr (str ''tools/call'') \<Longrightarrow>
   backup_handle env s (JObj kvs) =
     Inr (if id_of kvs \<noteq> JNull
          then emit (error_response (id_of kvs) (str ''Unknown method: '' @ py_str env (method_of kvs))) s
          else s)"
  by (simp add: backup_handle_def)

lemma error_of_error_response [simp]:
  "error_of (error_response rid m) = Some (JInt (- 32601), JStr m)"
  by (simp add: error_of_def error_response_def lookup_def)

lemma run_Cons [simp]: "run d env p (ev # evs) = run d env (step d env p ev) evs"
  by (simp add: run_def)

lemma run_Nil [simp]: "run d env p [] = p"
  by (simp add: run_def)

lemma run_Exited [simp]: "run d env (Exited r s) evs = Exited r s"
  by (induction evs) simp_all

lemma handle_initialized:
  assumes "handle env s (JObj kvs) = Inr s'"
  shows "initialized s' = (initialized s \<or> method_of kvs = JStr (str ''initialize''))"
proof -
  consider (init) "method_of kvs = JStr (str ''initialize'')"
    | (list) "method_of kvs = JStr (str ''tools/list'')"
    | (call) "method_of kvs = JStr (str ''tools/call'')"
    | (other) "method_of kvs \<noteq> JStr (str ''initialize'')"
        "method_of kvs \<noteq> JStr (str ''tools/list'')" "method_of kvs \<noteq> JStr (str ''tools/call'')"
    by blast
  then show ?thesis
  proof cases
    case init
    with assms show ?thesis by (auto simp: handle_initialize)
  next
    case list
    with assms show ?thesis by (auto simp: handle_tools_list split: if_splits)
  next
    case call
    show ?thesis
    proof (cases "id_of kvs = JNull")
      case True
      with call assms show ?thesis by (simp add: handle_tools_call)
    next
      case False
      with call assms have c: "tools_call env s (JObj kvs) (id_of kvs) = Inr s'"
        by (simp add: handle_tools_call)
      then have "call_typed kvs"
        using tools_call_untyped [of kvs env s "id_of kvs"] by auto
      from tools_call_typed [OF this, of env s "id_of kvs"] c call show ?thesis
        by auto
    qed
  next
    case other
    with assms show ?thesis by (auto simp: handle_other split: if_splits)
  qed
qed

lemma handle_never_decode_error:
  assumes "handle env s (JObj kvs) = Inl e"
  shows "e \<noteq> JSONDecodeError t"
proof (cases "request_typed kvs")
  case True
  from handle_typed [OF True, of env s] assms show ?thesis by auto
next
  case False
  from handle_untyped [OF False, of env s] assms show ?thesis by auto
qed

lemma iteration_initialized:
  assumes "iteration handle env s line = Running s'"
  shows "initialized s' = (initialized s \<or> is_initialize env line)"
proof (cases "line = [] \<or> strip line = []")
  case True
  with assms show ?thesis
    by (auto simp: iteration_def is_initialize_def split: if_splits)
next
  case False
  then have l: "line \<noteq> []" "strip line \<noteq> []" by simp_all
  show ?thesis
  proof (cases "loads env (strip line)")
    case (Inl e)
    with assms l show ?thesis
      by (cases e) (simp_all add: iteration_def is_initialize_def)
  next
    case (Inr v)
    note Some = this
    show ?thesis
    proof (cases "is_dict v")
      case False
      from iteration_raised [where dispatch = handle, OF l Some handle_not_dict [OF False]] assms
      show ?thesis by simp
    next
      case True
      then obtain kvs where v: "v = JObj kvs" by (rule is_dictE)
      show ?thesis
      proof (cases "handle env s (JObj kvs)")
        case (Inr s1)
        from iteration_returned [where dispatch = handle, OF l Some [unfolded v] Inr] assms
        have "s1 = s'" by simp
        with handle_initialized [OF Inr] l Some v show ?thesis
          by (simp add: is_initialize_def)
      next
        case (Inl e)
        from iteration_raised [where dispatch = handle, OF l Some [unfolded v] Inl] assms
          handle_never_decode_error [OF Inl]
        show ?thesis by simp
      qed
    qed
  qed
qed

lemma run_Idle [simp]: "Signal \<notin> set evs \<Longrightarrow> run d env (Idle s) evs = Idle s"
proof (induction evs)
  case Nil
  then show ?case by simp
next
  case (Cons ev evs)
  then show ?case by (cases ev) simp_all
qed

lemma run_Idle_not_Running: "run d env (Idle s) evs \<noteq> Running s'"
proof (induction evs)
  case Nil
  then show ?case by simp
next
  case (Cons ev evs)
  then show ?case by (cases ev) simp_all
qed

lemma iteration_end_of_stream:
  "iteration d env s [] = (if initialized s then Idle s else Exited StdinClosed s)"
  by (simp add: iteration_def)

lemma run_initialized:
  assumes "run handle env (Running s0) evs = Running s"
  shows "initialized s = (initialized s0 \<or> initialize_seen env evs)"
  using assms
proof (induction evs arbitrary: s0)
  case Nil
  then show ?case by (simp add: initialize_seen_def)
next
  case (Cons ev evs)
  show ?case
  proof (cases ev)
    case (Read line)
    show ?thesis
    proof (cases "iteration handle env s0 line")
      case (Running s1)
      with Cons.prems Read have "run handle env (Running s1) evs = Running s" by simp
      from Cons.IH [OF this] iteration_initialized [OF Running] Read show ?thesis
        by (auto simp: initialize_seen_def)
    next
      case (Idle s1)
      with Cons.prems Read show ?thesis by (simp add: run_Idle_not_Running)
    next
      case (Exited r s1)
      with Cons.prems Read show ?thesis by simp
    qed
  next
    case Tick
    with Cons.prems have "run handle env (Running s0) evs = Running s" by simp
    from Cons.IH [OF this] Tick show ?thesis by (simp add: initialize_seen_def)
  next
    case Signal
    with Cons.prems show ?thesis by simp
  qed
qed

lemma weather_try_not_quoted:
  "quote_value env city = Inl e \<Longrightarrow> weather_try env s city = (Inl e, s)"
  by (simp add: weather_try_def)

lemma weather_try_refused:
  "quote_value env city = Inr enc \<Longrightarrow>
   urlopen env (length (fetched s)) (weather_url enc) 10 = Refused e \<Longrightarrow>
   weather_try env s city = (Inl e, s\<lparr>fetched := fetched s @ [weather_url enc]\<rparr>)"
  by (simp add: weather_try_def)

lemma weather_try_status:
  "quote_value env city = Inr enc \<Longrightarrow>
   urlopen env (length (fetched s)) (weather_url enc) 10 = Opened status body \<Longrightarrow>
   status \<noteq> 200 \<Longrightarrow>
   weather_try env s city = (Inr (weather_sorry env city), s\<lparr>fetched := fetched s @ [weather_url enc]\<rparr>)"
  by (simp add: weather_try_def)

lemma weather_try_body:
  "quote_value env city = Inr enc \<Longrightarrow>
   urlopen env (length (fetched s)) (weather_url enc) 10 = Opened 200 body \<Longrightarrow>
   weather_try env s city =
     (bnd body (\<lambda>text. bnd (loads env text) (weather_report env city)),
      s\<lparr>fetched := fetched s @ [weather_url enc]\<rparr>)"
  by (simp add: weather_try_def)

lemma weather_info_simps:
  "weather_info env (Inr info) = info"
  "weather_info env (Inl (URLError r)) = network_error_text env (URLError r)"
  "weather_info env (Inl (JSONDecodeError t)) = processing_error_text env (JSONDecodeError t)"
  "weather_info env (Inl (KeyError k)) = processing_error_text env (KeyError k)"
  "weather_info env (Inl (TypeError v)) = processing_error_text env (TypeError v)"
  "weather_info env (Inl IndexError) = processing_error_text env IndexError"
  "weather_info env (Inl (AttributeError v a)) = processing_error_text env (AttributeError v a)"
  "weather_info env (Inl (OtherError m)) = processing_error_text env (OtherError m)"
  "weather_info env (Inl (ValueError v)) = processing_error_text env (ValueError v)"
  "weather_info env (Inl RecursionError) = processing_error_text env RecursionError"
  by (simp_all add: weather_info_def network_error_text_def processing_error_text_def)

lemma error_of_text_response [simp]: "error_of (text_response rid t) = None"
  by (simp add: error_of_def text_response_def result_response_def)


subsection \<open>The registered tools\<close>

lemma registered_tools:
  "name \<in> set (map descriptor_name tools_list) \<longleftrightarrow>
     name = JStr (str ''echo'') \<or> name = JStr (str ''reverse'')
     \<or> name = JStr (str ''word_count'') \<or> name = JStr (str ''weather'')"
  by (auto simp: tools_list_def descriptor_def descriptor_name_def lookup_def)

lemma xavier_registered_tools:
  "name \<in> set (map descriptor_name xavier_tools_list) \<longleftrightarrow>
     name = JStr (str ''echo'') \<or> name = JStr (str ''reverse'')
     \<or> name = JStr (str ''word_count'') \<or> name = JStr (str ''weather'')
     \<or> name = JStr (str ''get_availability'')"
  by (auto simp: xavier_tools_list_def descriptor_def descriptor_name_def lookup_def)

text \<open>A typed call of a tool \<^verbatim>\<open>xjg.py\<close> knows writes one line, a text result.\<close>

lemma tools_call_registered:
  assumes ps: "params_of kvs = JObj ps"
    and reg: "name_of ps \<in> set (map descriptor_name tools_list)"
    and typed: "call_typed kvs"
  shows "\<exists>text s'. tools_call env s (JObj kvs) rid = Inr (emit (text_response rid text) s')
           \<and> out s' = out s"
proof -
  from reg have "name_of ps = JStr (str ''echo'') \<or> name_of ps = JStr (str ''reverse'')
     \<or> name_of ps = JStr (str ''word_count'') \<or> name_of ps = JStr (str ''weather'')"
    by (simp only: registered_tools)
  then show ?thesis
  proof (elim disjE)
    assume n: "name_of ps = JStr (str ''echo'')"
    with ps typed obtain args where "arguments_of ps = JObj args"
      by (auto simp: call_typed_def elim: is_dictE)
    from tools_call_echo [OF ps n this, of env s rid] show ?thesis
      by (intro exI [of _ s] exI) simp
  next
    assume n: "name_of ps = JStr (str ''reverse'')"
    with ps typed obtain args where args: "arguments_of ps = JObj args"
      and "is_sequence (lookup args (str ''text'') (JStr []))"
      by (cases "arguments_of ps") (simp_all add: call_typed_def)
    then obtain r where "reversed (lookup args (str ''text'') (JStr [])) = Inr r"
      using reversed_sequence by blast
    with tools_call_reverse [OF ps n args, of env s rid] show ?thesis
      by (intro exI [of _ s] exI) simp
  next
    assume n: "name_of ps = JStr (str ''word_count'')"
    with ps typed obtain args where args: "arguments_of ps = JObj args"
      and "is_text (lookup args (str ''text'') (JStr []))"
      by (cases "arguments_of ps") (simp_all add: call_typed_def)
    then obtain t where "lookup args (str ''text'') (JStr []) = JStr t"
      by (cases "lookup args (str ''text'') (JStr [])") (simp_all add: is_text_def)
    from tools_call_word_count [OF ps n args this, of env s rid] show ?thesis
      by (intro exI [of _ s] exI) simp
  next
    assume n: "name_of ps = JStr (str ''weather'')"
    with ps typed obtain args where "arguments_of ps = JObj args"
      by (auto simp: call_typed_def elim: is_dictE)
    from tools_call_weather [OF ps n this, of env s rid] show ?thesis
      by (intro exI [of _ "snd (weather_try env s
            (lookup args (str ''city'') (JStr (str ''Frisco, Colorado''))))"] exI) simp
  qed
qed

text \<open>The weather tool of \<^verbatim>\<open>xjg.py\<close>, once the city is quoted: what the call writes.\<close>

lemma handle_weather:
  assumes "method_of kvs = JStr (str ''tools/call'')" "id_of kvs \<noteq> JNull"
    "params_of kvs = JObj ps" "name_of ps = JStr (str ''weather'')"
    "arguments_of ps = JObj args"
  shows "handle env s (JObj kvs) =
      Inr (emit (text_response (id_of kvs)
           (weather_info env
             (fst (weather_try env s (lookup args (str ''city'') (JStr (str ''Frisco, Colorado'')))))))
         (snd (weather_try env s (lookup args (str ''city'') (JStr (str ''Frisco, Colorado''))))))"
  using assms(1,2) tools_call_weather [OF assms(3-5), of env s "id_of kvs"]
  by (simp add: handle_tools_call)

subsection \<open>The dispatcher of xavier.py\<close>

lemma xavier_handle_tools_call:
  "method_of kvs = JStr (str ''tools/call'') \<Longrightarrow>
   xavier_handle env s (JObj kvs) =
     (if id_of kvs \<noteq> JNull then xavier_tools_call env s (JObj kvs) (id_of kvs) else Inr s)"
  by (simp add: xavier_handle_def)

lemma xavier_handle_not_dict:
  "\<not> is_dict v \<Longrightarrow> xavier_handle env s v = Inl (AttributeError v (str ''get''))"
  by (simp add: xavier_handle_def get_not_dict)

lemma xavier_tools_call_echo:
  assumes "params_of kvs = JObj ps" "name_of ps = JStr (str ''echo'')"
    "arguments_of ps = JObj args"
  shows "xavier_tools_call env s (JObj kvs) rid =
    Inr (emit (text_response rid
      (str ''Echo: '' @ py_str env (lookup args (str ''message'') (JStr [])))) s)"
  using assms by (simp add: xavier_tools_call_def echo_text_def argument_def)

lemma xavier_tools_call_reverse:
  assumes "params_of kvs = JObj ps" "name_of ps = JStr (str ''reverse'')"
    "arguments_of ps = JObj args"
  shows "xavier_tools_call env s (JObj kvs) rid =
    bnd (reversed (lookup args (str ''text'') (JStr []))) (\<lambda>r.
      Inr (emit (text_response rid (str ''Reversed: '' @ py_str env r)) s))"
  using assms by (simp add: xavier_tools_call_def reverse_text_def argument_def bnd_assoc)

lemma xavier_tools_call_word_count:
  assumes "params_of kvs = JObj ps" "name_of ps = JStr (str ''word_count'')"
    "arguments_of ps = JObj args" "lookup args (str ''text'') (JStr []) = JStr t"
  shows "xavier_tools_call env s (JObj kvs) rid =
    Inr (emit (text_response rid (xavier_word_count_result t)) s)"
  using assms by (simp add: xavier_tools_call_def xavier_word_count_text_def argument_def)

lemma xavier_tools_call_weather:
  assumes "params_of kvs = JObj ps" "name_of ps = JStr (str ''weather'')"
    "arguments_of ps = JObj args" "xavier_city (lookup args (str ''city'') JNull) = Inr city"
  shows "xavier_tools_call env s (JObj kvs) rid =
    Inr (emit (text_response rid
           (xavier_weather_info env city (fst (xavier_weather_try env s city))))
         (snd (xavier_weather_try env s city)))"
  using assms by (simp add: xavier_tools_call_def argument_def split: prod.splits)

lemma xavier_tools_call_city:
  assumes "params_of kvs = JObj ps" "name_of ps = JStr (str ''weather'')"
    "arguments_of ps = JObj args" "xavier_city (lookup args (str ''city'') JNull) = Inl e"
  shows "xavier_tools_call env s (JObj kvs) rid = Inl e"
  using assms by (simp add: xavier_tools_call_def argument_def)

lemma xavier_tools_call_availability:
  assumes "params_of kvs = JObj ps" "name_of ps = JStr (str ''get_availability'')"
    "arguments_of ps = JObj args" "lookup args (str ''date'') (JStr (str ''today'')) = JStr d"
  shows "xavier_tools_call env s (JObj kvs) rid =
    Inr (emit (text_response rid
           (availability (strftime env (target_date env (length (out s)) d)))) s)"
  using assms by (simp add: xavier_tools_call_def availability_text_def argument_def)

lemma xavier_city_typed:
  assumes "if truthy c then is_text c else True"
  shows "\<exists>city. xavier_city c = Inr city"
  using assms by (cases c) (simp_all add: xavier_city_def is_text_def split: if_splits)

lemma xavier_city_untyped:
  assumes "truthy c" "\<not> is_text c"
  shows "xavier_city c = Inl (AttributeError c (str ''strip''))"
  using assms by (cases c) (simp_all add: xavier_city_def is_text_def)

lemma out_xavier_weather_try [simp]: "out (snd (xavier_weather_try env s city)) = out s"
  by (simp add: xavier_weather_try_def split: sum.splits)

lemma xavier_weather_try_refused:
  "quote env city = Inr enc \<Longrightarrow>
   urlopen env (length (fetched s)) (weather_url enc) 15 = Refused e \<Longrightarrow>
   xavier_weather_try env s city = (Inl e, s\<lparr>fetched := fetched s @ [weather_url enc]\<rparr>)"
  by (simp add: xavier_weather_try_def)

lemma xavier_weather_try_body:
  "quote env city = Inr enc \<Longrightarrow>
   urlopen env (length (fetched s)) (weather_url enc) 15 = Opened 200 body \<Longrightarrow>
   xavier_weather_try env s city =
     (bnd body (\<lambda>text. bnd (loads env text) (xavier_weather_report env city)),
      s\<lparr>fetched := fetched s @ [weather_url enc]\<rparr>)"
  by (simp add: xavier_weather_try_def)

text \<open>A typed call of a tool \<^verbatim>\<open>xavier.py\<close> knows writes one line, a text result.\<close>

lemma xavier_tools_call_registered:
  assumes ps: "params_of kvs = JObj ps"
    and reg: "name_of ps \<in> set (map descriptor_name xavier_tools_list)"
    and typed: "xavier_call_typed kvs"
  shows "\<exists>text s'. xavier_tools_call env s (JObj kvs) rid = Inr (emit (text_response rid text) s')
           \<and> out s' = out s"
proof -
  from reg have "name_of ps = JStr (str ''echo'') \<or> name_of ps = JStr (str ''reverse'')
     \<or> name_of ps = JStr (str ''word_count'') \<or> name_of ps = JStr (str ''weather'')
     \<or> name_of ps = JStr (str ''get_availability'')"
    by (simp only: xavier_registered_tools)
  then show ?thesis
  proof (elim disjE)
    assume n: "name_of ps = JStr (str ''echo'')"
    with ps typed obtain args where "arguments_of ps = JObj args"
      by (auto simp: xavier_call_typed_def elim: is_dictE)
    from xavier_tools_call_echo [OF ps n this, of env s rid] show ?thesis
      by (intro exI [of _ s] exI) simp
  next
    assume n: "name_of ps = JStr (str ''reverse'')"
    with ps typed obtain args where args: "arguments_of ps = JObj args"
      and "is_sequence (lookup args (str ''text'') (JStr []))"
      by (cases "arguments_of ps") (simp_all add: xavier_call_typed_def)
    then obtain r where "reversed (lookup args (str ''text'') (JStr [])) = Inr r"
      using reversed_sequence by blast
    with xavier_tools_call_reverse [OF ps n args, of env s rid] show ?thesis
      by (intro exI [of _ s] exI) simp
  next
    assume n: "name_of ps = JStr (str ''word_count'')"
    with ps typed obtain args where args: "arguments_of ps = JObj args"
      and "is_text (lookup args (str ''text'') (JStr []))"
      by (cases "arguments_of ps") (simp_all add: xavier_call_typed_def)
    then obtain t where "lookup args (str ''text'') (JStr []) = JStr t"
      by (cases "lookup args (str ''text'') (JStr [])") (simp_all add: is_text_def)
    from xavier_tools_call_word_count [OF ps n args this, of env s rid] show ?thesis
      by (intro exI [of _ s] exI) simp
  next
    assume n: "name_of ps = JStr (str ''weather'')"
    with ps typed obtain args where args: "arguments_of ps = JObj args"
      and "if truthy (lookup args (str ''city'') JNull)
           then is_text (lookup args (str ''city'') JNull) else True"
      by (cases "arguments_of ps") (simp_all add: xavier_call_typed_def)
    then obtain city where "xavier_city (lookup args (str ''city'') JNull) = Inr city"
      using xavier_city_typed by blast
    from xavier_tools_call_weather [OF ps n args this, of env s rid] show ?thesis
      by (intro exI [of _ "snd (xavier_weather_try env s city)"] exI) simp
  next
    assume n: "name_of ps = JStr (str ''get_availability'')"
    with ps typed obtain args where args: "arguments_of ps = JObj args"
      and "is_text (lookup args (str ''date'') (JStr (str ''today'')))"
      by (cases "arguments_of ps") (simp_all add: xavier_call_typed_def)
    then obtain d where "lookup args (str ''date'') (JStr (str ''today'')) = JStr d"
      by (cases "lookup args (str ''date'') (JStr (str ''today''))") (simp_all add: is_text_def)
    from xavier_tools_call_availability [OF ps n args this, of env s rid] show ?thesis
      by (intro exI [of _ s] exI) simp
  qed
qed

text \<open>The weather tool of \<^verbatim>\<open>xavier.py\<close>, once the city is settled: what the call writes.\<close>

lemma xavier_handle_weather:
  assumes "method_of kvs = JStr (str ''tools/call'')" "id_of kvs \<noteq> JNull"
    "params_of kvs = JObj ps" "name_of ps = JStr (str ''weather'')"
    "arguments_of ps = JObj args" "xavier_city (lookup args (str ''city'') JNull) = Inr city"
  shows "xavier_handle env s (JObj kvs) =
      Inr (emit (text_response (id_of kvs)
             (xavier_weather_info env city (fst (xavier_weather_try env s city))))
           (snd (xavier_weather_try env s city)))"
  using assms(1,2) xavier_tools_call_weather [OF assms(3-6), of env s "id_of kvs"]
  by (simp add: xavier_handle_tools_call)

text \<open>An ill-typed call of \<^verbatim>\<open>xavier.py\<close> raises before anything is written or fetched.\<close>

lemma xavier_tools_call_no_params:
  assumes "\<not> is_dict (params_of kvs)"
  shows "xavier_tools_call env s (JObj kvs) rid = Inl (AttributeError (params_of kvs) (str ''get''))"
  using assms by (simp add: xavier_tools_call_def get_not_dict)

lemma xavier_tools_call_no_arguments:
  assumes "params_of kvs = JObj ps" "\<not> is_dict (arguments_of ps)"
    "name_of ps = JStr (str ''echo'') \<or> name_of ps = JStr (str ''reverse'')
     \<or> name_of ps = JStr (str ''word_count'') \<or> name_of ps = JStr (str ''weather'')
     \<or> name_of ps = JStr (str ''get_availability'')"
  shows "xavier_tools_call env s (JObj kvs) rid
           = Inl (AttributeError (arguments_of ps) (str ''get''))"
  using assms
  by (auto simp: xavier_tools_call_def echo_text_def reverse_text_def xavier_word_count_text_def
      availability_text_def argument_def get_not_dict)

lemma xavier_tools_call_not_text:
  assumes "params_of kvs = JObj ps" "name_of ps = JStr (str ''word_count'')"
    "arguments_of ps = JObj args" "\<not> is_text (lookup args (str ''text'') (JStr []))"
  shows "xavier_tools_call env s (JObj kvs) rid =
    Inl (AttributeError (lookup args (str ''text'') (JStr [])) (str ''strip''))"
  using assms
  by (cases "lookup args (str ''text'') (JStr [])")
     (simp_all add: xavier_tools_call_def xavier_word_count_text_def argument_def is_text_def)

lemma xavier_tools_call_not_date:
  assumes "params_of kvs = JObj ps" "name_of ps = JStr (str ''get_availability'')"
    "arguments_of ps = JObj args" "\<not> is_text (lookup args (str ''date'') (JStr (str ''today'')))"
  shows "xavier_tools_call env s (JObj kvs) rid =
    Inl (AttributeError (lookup args (str ''date'') (JStr (str ''today''))) (str ''lower''))"
  using assms
  by (cases "lookup args (str ''date'') (JStr (str ''today''))")
     (simp_all add: xavier_tools_call_def availability_text_def argument_def is_text_def)

lemma xavier_tools_call_untyped:
  assumes "\<not> xavier_call_typed kvs"
  shows "\<exists>e. xavier_tools_call env s (JObj kvs) rid = Inl e \<and> (\<forall>t. e \<noteq> JSONDecodeError t)"
proof (cases "is_dict (params_of kvs)")
  case False
  then show ?thesis by (simp add: xavier_tools_call_no_params)
next
  case True
  then obtain ps where ps: "params_of kvs = JObj ps"
    by (rule is_dictE)
  with assms have known: "name_of ps = JStr (str ''echo'') \<or> name_of ps = JStr (str ''reverse'')
     \<or> name_of ps = JStr (str ''word_count'') \<or> name_of ps = JStr (str ''weather'')
     \<or> name_of ps = JStr (str ''get_availability'')"
    by (auto simp: xavier_call_typed_def split: if_splits)
  show ?thesis
  proof (cases "is_dict (arguments_of ps)")
    case False
    from xavier_tools_call_no_arguments [OF ps False known] show ?thesis by simp
  next
    case True
    then obtain args where args: "arguments_of ps = JObj args"
      by (rule is_dictE)
    with assms ps have
      "(name_of ps = JStr (str ''reverse'') \<and> \<not> is_sequence (lookup args (str ''text'') (JStr [])))
       \<or> (name_of ps = JStr (str ''word_count'') \<and> \<not> is_text (lookup args (str ''text'') (JStr [])))
       \<or> (name_of ps = JStr (str ''weather'') \<and> truthy (lookup args (str ''city'') JNull)
            \<and> \<not> is_text (lookup args (str ''city'') JNull))
       \<or> (name_of ps = JStr (str ''get_availability'')
            \<and> \<not> is_text (lookup args (str ''date'') (JStr (str ''today''))))"
      by (auto simp: xavier_call_typed_def is_dict_def split: if_splits)
    then show ?thesis
    proof (elim disjE)
      assume r: "name_of ps = JStr (str ''reverse'') \<and> \<not> is_sequence (lookup args (str ''text'') (JStr []))"
      with xavier_tools_call_reverse [OF ps _ args, of env s rid] show ?thesis
        by (simp add: reversed_other)
    next
      assume w: "name_of ps = JStr (str ''word_count'') \<and> \<not> is_text (lookup args (str ''text'') (JStr []))"
      with xavier_tools_call_not_text [OF ps _ args, of env s rid] show ?thesis
        by simp
    next
      assume c: "name_of ps = JStr (str ''weather'') \<and> truthy (lookup args (str ''city'') JNull)
            \<and> \<not> is_text (lookup args (str ''city'') JNull)"
      then have "xavier_city (lookup args (str ''city'') JNull)
          = Inl (AttributeError (lookup args (str ''city'') JNull) (str ''strip''))"
        by (simp add: xavier_city_untyped)
      with c xavier_tools_call_city [OF ps _ args, of _ env s rid] show ?thesis
        by simp
    next
      assume d: "name_of ps = JStr (str ''get_availability'')
            \<and> \<not> is_text (lookup args (str ''date'') (JStr (str ''today'')))"
      with xavier_tools_call_not_date [OF ps _ args, of env s rid] show ?thesis
        by simp
    qed
  qed
qed

subsection \<open>The lines as the client reads them\<close>

lemma text_response_members: "text_response rid t = text_result rid t"
  by (simp add: text_response_def result_response_def)

lemma error_response_members: "error_response rid m = error_result rid (- 32601) m"
  by (simp add: error_response_def)

lemma emit_out: "emit v s = s\<lparr>out := out s @ [v]\<rparr>"
  by (simp add: emit_def)

subsection \<open>The sample session\<close>

lemma strip_as_line:
  "strip (as_line text_initialize) = text_initialize"
  "strip (as_line text_initialized) = text_initialized"
  "strip (as_line text_tools_list) = text_tools_list"
  "strip (as_line text_echo) = text_echo"
  "strip (as_line text_reverse_5) = text_reverse_5"
  "strip (as_line text_weather_notification) = text_weather_notification"
  "strip (as_line text_weather_call) = text_weather_call"
  "strip (as_line text_params_null) = text_params_null"
  "strip (as_line text_unknown_tool_5) = text_unknown_tool_5"
  "strip (as_line text_unknown_tool) = text_unknown_tool"
  "strip (as_line text_unknown_method) = text_unknown_method"
  "strip (as_line text_array) = text_array"
  "strip (as_line text_malformed) = text_malformed"
  by (simp_all add: as_line_def strip_def isspace_def str_def text_initialize_def
      text_initialized_def text_tools_list_def text_echo_def text_reverse_5_def
      text_weather_notification_def text_weather_call_def text_unknown_tool_def
      text_unknown_method_def text_array_def text_malformed_def text_params_null_def
      text_unknown_tool_5_def)

lemma length_str [simp]: "length (str cs) = length cs"
  by (simp add: str_def)

lemma isspace_newline: "isspace 10"
  by (simp add: isspace_def)

lemma strip_replicate: "\<not> isspace c \<Longrightarrow> strip (replicate n c @ [10]) = replicate n c"
  by (cases n) (simp_all add: strip_def isspace_newline replicate_append_same)

lemma strip_text_deep: "strip (as_line text_deep) = text_deep"
  by (simp add: as_line_def text_deep_def strip_replicate isspace_def)

lemma text_deep_not_empty: "text_deep \<noteq> []"
  by (simp add: text_deep_def)

lemma not_text_deep: "length t < 1100 \<Longrightarrow> (t = text_deep) = False"
  by (auto simp: text_deep_def)

lemma sample_loads_simps:
  "sample_loads text_initialize = Inr (JObj req_initialize)"
  "sample_loads text_initialized = Inr (JObj req_initialized)"
  "sample_loads text_tools_list = Inr (JObj req_tools_list)"
  "sample_loads text_echo = Inr (JObj req_echo)"
  "sample_loads text_reverse_5 = Inr (JObj req_reverse_5)"
  "sample_loads text_weather_notification = Inr (JObj (req_weather JNull (str ''Denver'')))"
  "sample_loads text_weather_call = Inr (JObj (req_weather (JInt 3) (str ''Denver'')))"
  "sample_loads text_params_null = Inr (JObj req_params_null)"
  "sample_loads text_unknown_tool_5 = Inr (JObj req_unknown_tool_5)"
  "sample_loads text_unknown_tool = Inr (JObj req_unknown_tool)"
  "sample_loads text_unknown_method = Inr (JObj req_unknown_method)"
  "sample_loads text_array = Inr (JArr [])"
  "sample_loads text_malformed = Inl (JSONDecodeError text_malformed)"
  "sample_loads text_conditions = Inr conditions"
  "sample_loads (str ''{}'') = Inr (JObj [])"
  "sample_loads (str ''<html>'') = Inl (JSONDecodeError (str ''<html>''))"
  "sample_loads text_deep = Inl RecursionError"
  by (simp_all add: sample_loads_def not_text_deep text_initialize_def
      text_initialized_def text_tools_list_def text_echo_def text_reverse_5_def
      text_weather_notification_def text_weather_call_def text_unknown_tool_def
      text_unknown_method_def text_array_def text_malformed_def text_conditions_def
      text_params_null_def text_unknown_tool_5_def)

lemma text_not_empty:
  "text_initialize \<noteq> []" "text_initialized \<noteq> []" "text_tools_list \<noteq> []" "text_echo \<noteq> []"
  "text_reverse_5 \<noteq> []" "text_weather_notification \<noteq> []" "text_weather_call \<noteq> []"
  "text_unknown_tool \<noteq> []" "text_unknown_method \<noteq> []" "text_array \<noteq> []"
  "text_malformed \<noteq> []" "text_params_null \<noteq> []" "text_unknown_tool_5 \<noteq> []"
  by (simp_all add: text_initialize_def
      text_initialized_def text_tools_list_def text_echo_def text_reverse_5_def
      text_weather_notification_def text_weather_call_def text_unknown_tool_def
      text_unknown_method_def text_array_def text_malformed_def text_params_null_def
      text_unknown_tool_5_def)

lemma as_line_not_empty [simp]: "as_line text \<noteq> []"
  by (simp add: as_line_def)

lemma loads_sample_env [simp]: "loads sample_env = sample_loads"
  by (simp add: sample_env_def)

lemma sample_city:
  "xavier_city (JStr (str ''Denver'')) = Inr (str ''Denver'')"
  "xavier_city (JStr (str ''Nowhere'')) = Inr (str ''Nowhere'')"
  "xavier_city (JStr (str ''Garbled'')) = Inr (str ''Garbled'')"
  "xavier_city (JStr (str ''Atlantis'')) = Inr (str ''Atlantis'')"
  by (simp_all add: xavier_city_def truthy_def strip_def isspace_def str_def)

lemmas sample_session = strip_as_line sample_loads_simps text_not_empty strip_text_deep
  text_deep_not_empty

section \<open>Properties\<close>

text \<open>
  C2 as stated: on the string \<^verbatim>\<open>a b  c\<close> the tool would report 4 characters without
  spaces. The string has six characters, three of them spaces, so the tool reports 3.
\<close>

theorem word_count_spec_literal_counterexample:
  "\<not> (word_count (str '''') = 0 \<and> line_count (str '''') = 0 \<and> char_count (str '''') = 0
      \<and> word_count (str ''a b  c'') = 3 \<and> char_count (str ''a b  c'') = 6
      \<and> char_count_no_spaces (str ''a b  c'') = 4)"
  by (simp add: char_count_no_spaces_def remove_spaces_def str_def)

text \<open>
  C2, amended. The word\_count tool on the empty string reports 0 words, 0 lines and
  0 characters; on the string \<^verbatim>\<open>a b  c\<close> (two spaces between b and c) it reports 3 words,
  6 characters and 3 characters without spaces (and 1 line). The rendered report for
  that string is given too.
\<close>

theorem word_count_literal_cases:
  "word_count (str '''') = 0 \<and> line_count (str '''') = 0 \<and> char_count (str '''') = 0
   \<and> word_count (str ''a b  c'') = 3 \<and> char_count (str ''a b  c'') = 6
   \<and> char_count_no_spaces (str ''a b  c'') = 3
   \<and> word_count_result (str ''a b  c'') =
       str ''Text Analysis:'' @ [10, 128221] @ str '' Words: 3'' @ [10, 128292]
       @ str '' Characters: 6'' @ [10, 128292] @ str '' Characters (no spaces): 3''
       @ [10, 128196] @ str '' Lines: 1''"
  by (simp add: word_count_def line_count_def char_count_def char_count_no_spaces_def
      word_count_result_def str_def strip_def split_def isspace_def remove_spaces_def
      splitlines_def is_linebreak_def dec_nat.simps)

text \<open>
  C1 as stated: every line that decodes to a request object with a non-null id gets
  exactly one response. The request below has id 7 and asks the reverse tool to reverse
  the number 5: \<^verbatim>\<open>text[::-1]\<close> raises TypeError, no handler of the loop body catches it,
  nothing is written and the server stops.
\<close>

theorem reverse_number_counterexample:
  "loads sample_env (strip (as_line text_reverse_5)) = Inr (JObj req_reverse_5)
   \<and> id_of req_reverse_5 = JInt 7
   \<and> iteration handle sample_env start (as_line text_reverse_5)
       = Exited (Fatal (TypeError (JInt 5))) start
   \<and> response_ids
        (emitted start (state_of (iteration handle sample_env start (as_line text_reverse_5)))) = []"
proof -
  have h: "handle sample_env start (JObj req_reverse_5) = Inl (TypeError (JInt 5))"
    by (simp add: handle_def tools_call_def reverse_text_def argument_def reversed_def
        req_reverse_5_def lookup_def)
  have "iteration handle sample_env start (as_line text_reverse_5)
       = Exited (Fatal (TypeError (JInt 5))) start"
    using iteration_raised [where dispatch = handle and line = "as_line text_reverse_5"
        and env = sample_env and s = start, OF _ _ _ h]
    by (simp add: sample_session)
  then show ?thesis
    by (simp add: sample_session state_of_def) (simp add: req_reverse_5_def lookup_def)
qed

text \<open>
  C1, amended. For every input line that decodes to a request object whose
  \<^verbatim>\<open>tools/call\<close> members have the types the tool reads (\<open>request_typed\<close>; every request
  that is no \<^verbatim>\<open>tools/call\<close> or has no id is typed): the server goes on running, and the
  responses it writes for the line are exactly one, with the id of the request, when
  that id is non-null, and none when the id is null or absent. For a request that is not
  typed the dispatcher raises, nothing is written and the server stops.
\<close>

theorem one_response_per_typed_request:
  assumes "line \<noteq> []" and "strip line \<noteq> []" and "loads env (strip line) = Inr (JObj kvs)"
  shows "if request_typed kvs
         then \<exists>s'. iteration handle env s line = Running s'
                \<and> response_ids (emitted s s') = (if id_of kvs \<noteq> JNull then [id_of kvs] else [])
         else \<exists>e. iteration handle env s line = Exited (Fatal e) s"
proof (cases "request_typed kvs")
  case True
  from handle_typed [OF True, of env s] obtain s' where
    "handle env s (JObj kvs) = Inr s'"
    "response_ids (emitted s s') = (if id_of kvs \<noteq> JNull then [id_of kvs] else [])"
    by blast
  with iteration_returned [OF assms, of handle s s'] True show ?thesis by auto
next
  case False
  from handle_untyped [OF False, of env s] obtain e where
    "handle env s (JObj kvs) = Inl e" "\<forall>t. e \<noteq> JSONDecodeError t"
    by blast
  with iteration_raised [OF assms, of handle s e] False show ?thesis by auto
qed

theorem one_response_per_typed_request_witness:
  "(\<exists>s'. iteration handle sample_env start (as_line text_echo) = Running s'
      \<and> response_ids (emitted start s') = [JStr (str ''a1'')])
   \<and> (\<exists>s'. iteration handle sample_env start (as_line text_weather_notification) = Running s'
      \<and> response_ids (emitted start s') = [])"
proof -
  have t: "request_typed req_echo" "id_of req_echo = JStr (str ''a1'')"
    by (simp_all add: request_typed_def call_typed_def req_echo_def lookup_def is_dict_def)
  have n: "request_typed (req_weather JNull (str ''Denver''))"
    "id_of (req_weather JNull (str ''Denver'')) = JNull"
    by (simp_all add: request_typed_def req_weather_def lookup_def)
  from one_response_per_typed_request [of "as_line text_echo" sample_env req_echo start]
    one_response_per_typed_request [of "as_line text_weather_notification" sample_env
      "req_weather JNull (str ''Denver'')" start] t n
  show ?thesis by (simp add: sample_session)
qed

text \<open>
  C3 as stated: a \<^verbatim>\<open>tools/call\<close> message without an id still runs the tool, so the
  weather tool still fetches. The message below names the weather tool and has no id: in
  \<^verbatim>\<open>xjg.py\<close> and in \<^verbatim>\<open>xavier.py\<close> the state after it is the state before it, with no URL
  requested. The same call with id 3 does request the URL.
\<close>

theorem weather_notification_counterexample:
  "loads sample_env (strip (as_line text_weather_notification))
     = Inr (JObj (req_weather JNull (str ''Denver'')))
   \<and> method_of (req_weather JNull (str ''Denver'')) = JStr (str ''tools/call'')
   \<and> id_of (req_weather JNull (str ''Denver'')) = JNull
   \<and> iteration handle sample_env start (as_line text_weather_notification) = Running start
   \<and> fetched (state_of (iteration handle sample_env start (as_line text_weather_notification))) = []
   \<and> fetched (state_of (iteration handle sample_env start (as_line text_weather_call)))
       = [weather_url (str ''Denver'')]
   \<and> iteration xavier_handle sample_env start (as_line text_weather_notification) = Running start
   \<and> fetched (state_of (iteration xavier_handle sample_env start
                           (as_line text_weather_notification))) = []
   \<and> fetched (state_of (iteration xavier_handle sample_env start (as_line text_weather_call)))
       = [weather_url (str ''Denver'')]"
proof -
  have a: "handle sample_env start (JObj (req_weather JNull (str ''Denver''))) = Inr start"
    by (simp add: handle_def req_weather_def lookup_def)
  have b: "\<exists>r. handle sample_env start (JObj (req_weather (JInt 3) (str ''Denver'')))
         = Inr (emit r (start\<lparr>fetched := [weather_url (str ''Denver'')]\<rparr>))"
    by (simp add: handle_def tools_call_def req_weather_def lookup_def argument_def
        weather_try_def quote_value_def sample_env_def start_def)
       (rule exI, rule refl)
  then obtain r where b': "handle sample_env start (JObj (req_weather (JInt 3) (str ''Denver'')))
         = Inr (emit r (start\<lparr>fetched := [weather_url (str ''Denver'')]\<rparr>))" ..
  have xa: "xavier_handle sample_env start (JObj (req_weather JNull (str ''Denver''))) = Inr start"
    by (simp add: xavier_handle_def req_weather_def lookup_def)
  have "snd (xavier_weather_try sample_env start (str ''Denver''))
      = start\<lparr>fetched := [weather_url (str ''Denver'')]\<rparr>"
    by (simp add: xavier_weather_try_def sample_env_def start_def)
  then have "\<exists>r. xavier_handle sample_env start (JObj (req_weather (JInt 3) (str ''Denver'')))
         = Inr (emit r (start\<lparr>fetched := [weather_url (str ''Denver'')]\<rparr>))"
    using xavier_handle_weather [of "req_weather (JInt 3) (str ''Denver'')"
        "[(str ''name'', JStr (str ''weather'')),
          (str ''arguments'', JObj [(str ''city'', JStr (str ''Denver''))])]"
        "[(str ''city'', JStr (str ''Denver''))]" "str ''Denver''" sample_env start]
    by (simp add: req_weather_def lookup_def sample_city) (rule exI, rule refl)
  then obtain xr where
    xb: "xavier_handle sample_env start (JObj (req_weather (JInt 3) (str ''Denver'')))
         = Inr (emit xr (start\<lparr>fetched := [weather_url (str ''Denver'')]\<rparr>))" ..
  have "iteration handle sample_env start (as_line text_weather_notification) = Running start"
    using iteration_returned [where dispatch = handle and line = "as_line text_weather_notification"
        and env = sample_env and s = start, OF _ _ _ a]
    by (simp add: sample_session)
  moreover have "iteration handle sample_env start (as_line text_weather_call)
      = Running (emit r (start\<lparr>fetched := [weather_url (str ''Denver'')]\<rparr>))"
    using iteration_returned [where dispatch = handle and line = "as_line text_weather_call"
        and env = sample_env and s = start, OF _ _ _ b']
    by (simp add: sample_session)
  moreover have "iteration xavier_handle sample_env start (as_line text_weather_notification)
      = Running start"
    using iteration_returned [where dispatch = xavier_handle
        and line = "as_line text_weather_notification"
        and env = sample_env and s = start, OF _ _ _ xa]
    by (simp add: sample_session)
  moreover have "iteration xavier_handle sample_env start (as_line text_weather_call)
      = Running (emit xr (start\<lparr>fetched := [weather_url (str ''Denver'')]\<rparr>))"
    using iteration_returned [where dispatch = xavier_handle and line = "as_line text_weather_call"
        and env = sample_env and s = start, OF _ _ _ xb]
    by (simp add: sample_session)
  ultimately show ?thesis
    by (simp add: sample_session state_of_def emit_def)
       (simp add: req_weather_def lookup_def start_def)
qed

text \<open>
  C3, amended. For every \<^verbatim>\<open>tools/call\<close> message without an id (absent or null), no
  response is emitted and the named tool is not run: in \<^verbatim>\<open>xjg.py\<close> and in \<^verbatim>\<open>xavier.py\<close>
  the whole branch is under \<^verbatim>\<open>if req_id is not None\<close>, so the state (flag, output, URLs
  requested) is unchanged and the server goes on running.
\<close>

theorem call_without_id_does_nothing:
  assumes "line \<noteq> []" and "strip line \<noteq> []" and "loads env (strip line) = Inr (JObj kvs)"
    and "method_of kvs = JStr (str ''tools/call'')" and "id_of kvs = JNull"
  shows "iteration handle env s line = Running s
         \<and> iteration xavier_handle env s line = Running s"
proof
  show "iteration handle env s line = Running s"
    using assms(4,5) by (intro iteration_returned [OF assms(1-3)]) (simp add: handle_tools_call)
  show "iteration xavier_handle env s line = Running s"
    using assms(4,5)
    by (intro iteration_returned [OF assms(1-3)]) (simp add: xavier_handle_tools_call)
qed

theorem call_without_id_does_nothing_witness:
  "iteration handle sample_env start (as_line text_weather_notification) = Running start
   \<and> iteration xavier_handle sample_env start (as_line text_weather_notification) = Running start"
  using call_without_id_does_nothing [of "as_line text_weather_notification" sample_env
      "req_weather JNull (str ''Denver'')" start]
  by (simp add: sample_session) (simp add: req_weather_def lookup_def)



text \<open>
  C5 as stated, with \<^verbatim>\<open>xjg_backup.py\<close> among the programs it is about: \<^verbatim>\<open>tools/list\<close>
  never yields an unknown-method error. The dispatch of \<^verbatim>\<open>xjg_backup.py\<close> has no branch
  for it, so the request below, with id 2, is answered there with one line, the error
  -32601 \<^verbatim>\<open>Unknown method: tools/list\<close>.
\<close>

theorem backup_tools_list_counterexample:
  "loads sample_env (strip (as_line text_tools_list)) = Inr (JObj req_tools_list)
   \<and> method_of req_tools_list = JStr (str ''tools/list'')
   \<and> id_of req_tools_list = JInt 2
   \<and> iteration backup_handle sample_env start (as_line text_tools_list)
       = Running \<lparr>initialized = False,
                  out = [error_result (JInt 2) (- 32601) (str ''Unknown method: tools/list'')],
                  fetched = []\<rparr>"
proof -
  have "backup_handle sample_env start (JObj req_tools_list)
      = Inr (emit (error_response (JInt 2) (str ''Unknown method: tools/list'')) start)"
    by (simp add: backup_handle_def req_tools_list_def lookup_def py_str_def str_def)
  from iteration_returned [where dispatch = backup_handle and line = "as_line text_tools_list"
        and env = sample_env and s = start, OF _ _ _ this]
  show ?thesis
    by (simp add: sample_session)
       (simp add: req_tools_list_def lookup_def emit_def start_def error_response_def)
qed

text \<open>
  C5, amended. In \<^verbatim>\<open>xjg.py\<close>, for every \<^verbatim>\<open>tools/list\<close> request carrying an id, the
  server writes exactly one line and changes nothing else: a result with that id whose
  \<^verbatim>\<open>tools\<close> member is the list of four descriptors written out below, each with the
  members \<^verbatim>\<open>name\<close>, \<^verbatim>\<open>description\<close> and \<^verbatim>\<open>inputSchema\<close>, for echo, reverse, word\_count
  and weather in this order; name, description and schema of each are those of the
  tool declaration, in the order of the declaration. The line has no \<^verbatim>\<open>error\<close> member.
  \<^verbatim>\<open>xjg_backup.py\<close> does not recognize the method: it answers the same request with one
  line, the error -32601 \<^verbatim>\<open>Unknown method: tools/list\<close>.
\<close>

theorem tools_list_answered:
  assumes "line \<noteq> []" and "strip line \<noteq> []" and "loads env (strip line) = Inr (JObj kvs)"
    and "method_of kvs = JStr (str ''tools/list'')" and "id_of kvs \<noteq> JNull"
  shows "iteration handle env s line
           = Running (s\<lparr>out := out s
                @ [JObj [(str ''jsonrpc'', JStr (str ''2.0'')), (str ''id'', id_of kvs),
                         (str ''result'', JObj [(str ''tools'', JArr tools_list)])]]\<rparr>)
         \<and> tools_list
             = [JObj [(str ''name'', JStr (str ''echo'')),
                      (str ''description'', JStr (str ''Echo back text'')),
                      (str ''inputSchema'',
                       JObj [(str ''type'', JStr (str ''object'')),
                             (str ''properties'',
                              JObj [(str ''message'', JObj [(str ''type'', JStr (str ''string''))])]),
                             (str ''required'', JArr [JStr (str ''message'')])])],
                JObj [(str ''name'', JStr (str ''reverse'')),
                      (str ''description'', JStr (str ''Reverse the order of characters in text'')),
                      (str ''inputSchema'',
                       JObj [(str ''type'', JStr (str ''object'')),
                             (str ''properties'',
                              JObj [(str ''text'', JObj [(str ''type'', JStr (str ''string''))])]),
                             (str ''required'', JArr [JStr (str ''text'')])])],
                JObj [(str ''name'', JStr (str ''word_count'')),
                      (str ''description'',
                       JStr (str ''Count words, characters, and lines in text'')),
                      (str ''inputSchema'',
                       JObj [(str ''type'', JStr (str ''object'')),
                             (str ''properties'',
                              JObj [(str ''text'', JObj [(str ''type'', JStr (str ''string''))])]),
                             (str ''required'', JArr [JStr (str ''text'')])])],
                JObj [(str ''name'', JStr (str ''weather'')),
                      (str ''description'',
                       JStr (str ''Get current weather for a city (defaults to Frisco, Colorado)'')),
                      (str ''inputSchema'',
                       JObj [(str ''type'', JStr (str ''object'')),
                             (str ''properties'',
                              JObj [(str ''city'',
                                     JObj [(str ''type'', JStr (str ''string'')),
                                           (str ''description'',
                                            JStr (str ''City name (e.g., 'Las Vegas' or 'Denver')''))])]),
                             (str ''required'', JArr [])])]]
         \<and> map (\<lambda>d. (member d (str ''name''), member d (str ''description''),
                      member d (str ''inputSchema''))) tools_list
             = map (\<lambda>(name, tool). (JStr name, member tool (str ''description''),
                                    member tool (str ''input_schema'')))
                 (items (member (member tool_declaration (str ''params'')) (str ''tools'')))
         \<and> iteration backup_handle env s line
             = Running (s\<lparr>out := out s
                  @ [error_result (id_of kvs) (- 32601) (str ''Unknown method: tools/list'')]\<rparr>)"
proof (intro conjI)
  show "iteration handle env s line
           = Running (s\<lparr>out := out s
                @ [JObj [(str ''jsonrpc'', JStr (str ''2.0'')), (str ''id'', id_of kvs),
                         (str ''result'', JObj [(str ''tools'', JArr tools_list)])]]\<rparr>)"
    using assms(4,5)
    by (intro iteration_returned [OF assms(1-3)])
       (simp add: handle_tools_list emit_def tools_list_response_def result_response_def)
  show "iteration backup_handle env s line
             = Running (s\<lparr>out := out s
                  @ [error_result (id_of kvs) (- 32601) (str ''Unknown method: tools/list'')]\<rparr>)"
    using assms(4,5)
    by (intro iteration_returned [OF assms(1-3)])
       (simp add: backup_handle_other py_str_def emit_def error_response_def, simp add: str_def)
  show "map (\<lambda>d. (member d (str ''name''), member d (str ''description''),
                      member d (str ''inputSchema''))) tools_list
             = map (\<lambda>(name, tool). (JStr name, member tool (str ''description''),
                                    member tool (str ''input_schema'')))
                 (items (member (member tool_declaration (str ''params'')) (str ''tools'')))"
    by (simp add: tools_list_def tool_declaration_def descriptor_def declared_def member_def
        items_def lookup_def)
qed (simp add: tools_list_def descriptor_def echo_schema_def text_schema_def weather_schema_def
      object_schema_def string_property_def echo_description_def reverse_description_def
      word_count_description_def weather_description_def)

theorem tools_list_answered_witness:
  "iteration handle sample_env start (as_line text_tools_list)
     = Running \<lparr>initialized = False,
                out = [JObj [(str ''jsonrpc'', JStr (str ''2.0'')), (str ''id'', JInt 2),
                             (str ''result'', JObj [(str ''tools'', JArr tools_list)])]],
                fetched = []\<rparr>
   \<and> iteration backup_handle sample_env start (as_line text_tools_list)
     = Running \<lparr>initialized = False,
                out = [error_result (JInt 2) (- 32601) (str ''Unknown method: tools/list'')],
                fetched = []\<rparr>"
proof -
  have "method_of req_tools_list = JStr (str ''tools/list'')" "id_of req_tools_list = JInt 2"
    by (simp_all add: req_tools_list_def lookup_def)
  with tools_list_answered [of "as_line text_tools_list" sample_env req_tools_list start]
  show ?thesis by (simp add: sample_session start_def)
qed

text \<open>
  C6 as stated: a call with an id that names a registered tool never raises out of the
  dispatcher. The first request below has id 4 and names the weather tool, with a string
  where the \<^verbatim>\<open>arguments\<close> object should be: line 239 of \<^verbatim>\<open>xjg.py\<close> and line 268 of
  \<^verbatim>\<open>xavier.py\<close> call \<^verbatim>\<open>.get\<close> on it, before the \<^verbatim>\<open>try\<close>, and the AttributeError leaves
  the dispatcher. The second has id 8 and the number 5 as \<^verbatim>\<open>city\<close>: line 269 of
  \<^verbatim>\<open>xavier.py\<close> calls \<^verbatim>\<open>.strip\<close> on it, again before the \<^verbatim>\<open>try\<close> of line 274.
\<close>

theorem weather_arguments_counterexample:
  "method_of req_weather_untyped = JStr (str ''tools/call'')
   \<and> id_of req_weather_untyped = JInt 4
   \<and> bnd (get (JObj req_weather_untyped) (str ''params'') (JObj []))
        (\<lambda>params. get params (str ''name'') JNull) = Inr (JStr (str ''weather''))
   \<and> JStr (str ''weather'') \<in> set (map descriptor_name tools_list)
   \<and> JStr (str ''weather'') \<in> set (map descriptor_name xavier_tools_list)
   \<and> handle sample_env start (JObj req_weather_untyped)
       = Inl (AttributeError (JStr (str ''Denver'')) (str ''get''))
   \<and> xavier_handle sample_env start (JObj req_weather_untyped)
       = Inl (AttributeError (JStr (str ''Denver'')) (str ''get''))
   \<and> method_of req_weather_city_5 = JStr (str ''tools/call'')
   \<and> id_of req_weather_city_5 = JInt 8
   \<and> bnd (get (JObj req_weather_city_5) (str ''params'') (JObj []))
        (\<lambda>params. get params (str ''name'') JNull) = Inr (JStr (str ''weather''))
   \<and> xavier_handle sample_env start (JObj req_weather_city_5)
       = Inl (AttributeError (JInt 5) (str ''strip''))"
proof -
  have "handle sample_env start (JObj req_weather_untyped)
       = Inl (AttributeError (JStr (str ''Denver'')) (str ''get''))"
    by (simp add: handle_def tools_call_def argument_def req_weather_untyped_def lookup_def)
  moreover have "xavier_handle sample_env start (JObj req_weather_untyped)
       = Inl (AttributeError (JStr (str ''Denver'')) (str ''get''))"
    by (simp add: xavier_handle_def xavier_tools_call_def argument_def req_weather_untyped_def
        lookup_def)
  moreover have "xavier_handle sample_env start (JObj req_weather_city_5)
       = Inl (AttributeError (JInt 5) (str ''strip''))"
    by (simp add: xavier_handle_def xavier_tools_call_def argument_def req_weather_city_5_def
        lookup_def xavier_city_def truthy_def)
  moreover have "method_of req_weather_untyped = JStr (str ''tools/call'')"
    "id_of req_weather_untyped = JInt 4"
    "bnd (get (JObj req_weather_untyped) (str ''params'') (JObj []))
        (\<lambda>params. get params (str ''name'') JNull) = Inr (JStr (str ''weather''))"
    "method_of req_weather_city_5 = JStr (str ''tools/call'')"
    "id_of req_weather_city_5 = JInt 8"
    "bnd (get (JObj req_weather_city_5) (str ''params'') (JObj []))
        (\<lambda>params. get params (str ''name'') JNull) = Inr (JStr (str ''weather''))"
    by (simp_all add: req_weather_untyped_def req_weather_city_5_def lookup_def)
  moreover have "JStr (str ''weather'') \<in> set (map descriptor_name tools_list)"
    "JStr (str ''weather'') \<in> set (map descriptor_name xavier_tools_list)"
    by (simp_all only: registered_tools xavier_registered_tools) simp_all
  ultimately show ?thesis by simp
qed

text \<open>
  C6, amended. For every \<^verbatim>\<open>tools/call\<close> request carrying an id whose \<^verbatim>\<open>params.name\<close> is
  a tool of the list of the program (four in \<^verbatim>\<open>xjg.py\<close>, five in \<^verbatim>\<open>xavier.py\<close>): when
  its members have the types the tool reads (\<open>call_typed\<close>, \<open>xavier_call_typed\<close>:
  \<^verbatim>\<open>arguments\<close> an object or absent; for reverse a \<^verbatim>\<open>text\<close> that is a string or a list;
  for word\_count a \<^verbatim>\<open>text\<close> that is a string; in \<^verbatim>\<open>xavier.py\<close> a \<^verbatim>\<open>city\<close> that is false
  or a string and a \<^verbatim>\<open>date\<close> that is a string), the dispatcher returns normally and
  writes exactly one line, a result with the id of the request whose content is one
  text, with no \<^verbatim>\<open>error\<close> member; when they have not, the dispatcher raises an
  exception that is no decode error, so that it ends the server. In the weather tool
  of either program a network error (URLError), a body that the decoder reports as no
  JSON and a document without \<^verbatim>\<open>current_condition\<close> each become the text that describes
  the problem, written as such a result after the URL has been requested.
\<close>

theorem registered_tool_answers_with_text:
  assumes "method_of kvs = JStr (str ''tools/call'')" and "id_of kvs \<noteq> JNull"
    and "params_of kvs = JObj ps"
  shows "(name_of ps \<in> set (map descriptor_name tools_list)
          \<longrightarrow>
            (if call_typed kvs
             then \<exists>text s'. handle env s (JObj kvs) = Inr s'
                    \<and> out s' = out s @ [text_result (id_of kvs) text]
             else \<exists>e. handle env s (JObj kvs) = Inl e \<and> (\<forall>t. e \<noteq> JSONDecodeError t)))
       \<and> (name_of ps \<in> set (map descriptor_name xavier_tools_list)
          \<longrightarrow>
            (if xavier_call_typed kvs
             then \<exists>text s'. xavier_handle env s (JObj kvs) = Inr s'
                    \<and> out s' = out s @ [text_result (id_of kvs) text]
             else \<exists>e. xavier_handle env s (JObj kvs) = Inl e \<and> (\<forall>t. e \<noteq> JSONDecodeError t)))
       \<and> (name_of ps = JStr (str ''weather'') \<and> arguments_of ps = JObj args
            \<and> quote_value env (lookup args (str ''city'') (JStr (str ''Frisco, Colorado''))) = Inr enc
          \<longrightarrow>
            (urlopen env (length (fetched s)) (weather_url enc) 10 = Refused (URLError reason)
             \<longrightarrow> handle env s (JObj kvs)
                  = Inr (s\<lparr>fetched := fetched s @ [weather_url enc],
                          out := out s @ [text_result (id_of kvs)
                            ([127760] @ str '' Network error getting weather: ''
                             @ exc_str env (URLError reason))]\<rparr>))
          \<and> (urlopen env (length (fetched s)) (weather_url enc) 10 = Opened 200 (Inr body)
               \<and> loads env body = Inl (JSONDecodeError m)
             \<longrightarrow> handle env s (JObj kvs)
                  = Inr (s\<lparr>fetched := fetched s @ [weather_url enc],
                          out := out s @ [text_result (id_of kvs)
                            ([9888, 65039] @ str '' Error processing weather data: ''
                             @ exc_str env (JSONDecodeError m))]\<rparr>))
          \<and> (urlopen env (length (fetched s)) (weather_url enc) 10 = Opened 200 (Inr body)
               \<and> loads env body = Inr (JObj doc) \<and> map_of doc (str ''current_condition'') = None
             \<longrightarrow> handle env s (JObj kvs)
                  = Inr (s\<lparr>fetched := fetched s @ [weather_url enc],
                          out := out s @ [text_result (id_of kvs)
                            ([9888, 65039] @ str '' Error processing weather data: ''
                             @ exc_str env (KeyError (JStr (str ''current_condition''))))]\<rparr>)))
       \<and> (name_of ps = JStr (str ''weather'') \<and> arguments_of ps = JObj args
            \<and> xavier_city (lookup args (str ''city'') JNull) = Inr city
            \<and> quote env city = Inr xenc
          \<longrightarrow>
            (urlopen env (length (fetched s)) (weather_url xenc) 15 = Refused (URLError reason)
             \<longrightarrow> xavier_handle env s (JObj kvs)
                  = Inr (s\<lparr>fetched := fetched s @ [weather_url xenc],
                          out := out s @ [text_result (id_of kvs)
                            ([287, 376, 338] @ str '' Network error getting weather for '' @ city
                             @ str '': '' @ exc_str env (URLError reason))]\<rparr>))
          \<and> (urlopen env (length (fetched s)) (weather_url xenc) 15 = Opened 200 (Inr body)
               \<and> loads env body = Inl (JSONDecodeError m)
             \<longrightarrow> xavier_handle env s (JObj kvs)
                  = Inr (s\<lparr>fetched := fetched s @ [weather_url xenc],
                          out := out s @ [text_result (id_of kvs)
                            ([226, 353, 160, 239, 184] @ str '' Error parsing weather data for ''
                             @ city @ str '': Invalid response format'')]\<rparr>))
          \<and> (urlopen env (length (fetched s)) (weather_url xenc) 15 = Opened 200 (Inr body)
               \<and> loads env body = Inr (JObj doc) \<and> map_of doc (str ''current_condition'') = None
             \<longrightarrow> xavier_handle env s (JObj kvs)
                  = Inr (s\<lparr>fetched := fetched s @ [weather_url xenc],
                          out := out s @ [text_result (id_of kvs)
                            ([226, 353, 160, 239, 184] @ str '' Incomplete weather data for ''
                             @ city @ str '': Missing ''
                             @ exc_str env (KeyError (JStr (str ''current_condition''))))]\<rparr>)))"
proof (intro conjI impI)
  assume a: "name_of ps \<in> set (map descriptor_name tools_list)"
  show "if call_typed kvs
        then \<exists>text s'. handle env s (JObj kvs) = Inr s'
               \<and> out s' = out s @ [text_result (id_of kvs) text]
        else \<exists>e. handle env s (JObj kvs) = Inl e \<and> (\<forall>t. e \<noteq> JSONDecodeError t)"
  proof (cases "call_typed kvs")
    case True
    from tools_call_registered [OF assms(3) a True, of env s "id_of kvs"]
    obtain t s' where "handle env s (JObj kvs) = Inr (emit (text_response (id_of kvs) t) s')"
      "out s' = out s"
      using assms(1,2) by (auto simp: handle_tools_call)
    then have "handle env s (JObj kvs) = Inr (emit (text_response (id_of kvs) t) s')
        \<and> out (emit (text_response (id_of kvs) t) s') = out s @ [text_result (id_of kvs) t]"
      by (simp add: text_response_members)
    with True show ?thesis by auto
  next
    case False
    from tools_call_untyped [OF False, of env s "id_of kvs"] assms(1,2) False show ?thesis
      by (simp add: handle_tools_call)
  qed
next
  assume a: "name_of ps \<in> set (map descriptor_name xavier_tools_list)"
  show "if xavier_call_typed kvs
        then \<exists>text s'. xavier_handle env s (JObj kvs) = Inr s'
               \<and> out s' = out s @ [text_result (id_of kvs) text]
        else \<exists>e. xavier_handle env s (JObj kvs) = Inl e \<and> (\<forall>t. e \<noteq> JSONDecodeError t)"
  proof (cases "xavier_call_typed kvs")
    case True
    from xavier_tools_call_registered [OF assms(3) a True, of env s "id_of kvs"]
    obtain t s' where
      "xavier_handle env s (JObj kvs) = Inr (emit (text_response (id_of kvs) t) s')"
      "out s' = out s"
      using assms(1,2) by (auto simp: xavier_handle_tools_call)
    then have "xavier_handle env s (JObj kvs) = Inr (emit (text_response (id_of kvs) t) s')
        \<and> out (emit (text_response (id_of kvs) t) s') = out s @ [text_result (id_of kvs) t]"
      by (simp add: text_response_members)
    with True show ?thesis by auto
  next
    case False
    from xavier_tools_call_untyped [OF False, of env s "id_of kvs"] assms(1,2) False show ?thesis
      by (simp add: xavier_handle_tools_call)
  qed
next
  assume w: "name_of ps = JStr (str ''weather'') \<and> arguments_of ps = JObj args
            \<and> quote_value env (lookup args (str ''city'') (JStr (str ''Frisco, Colorado''))) = Inr enc"
    and f: "urlopen env (length (fetched s)) (weather_url enc) 10 = Refused (URLError reason)"
  from w have c: "handle env s (JObj kvs) =
      Inr (emit (text_response (id_of kvs)
           (weather_info env
             (fst (weather_try env s (lookup args (str ''city'') (JStr (str ''Frisco, Colorado'')))))))
         (snd (weather_try env s (lookup args (str ''city'') (JStr (str ''Frisco, Colorado''))))))"
    by (intro handle_weather [OF assms]) simp_all
  from w f show "handle env s (JObj kvs)
      = Inr (s\<lparr>fetched := fetched s @ [weather_url enc],
              out := out s @ [text_result (id_of kvs)
                ([127760] @ str '' Network error getting weather: ''
                 @ exc_str env (URLError reason))]\<rparr>)"
    unfolding c
    by (simp add: weather_try_refused weather_info_simps network_error_text_def
        emit_def text_response_def result_response_def)
next
  assume w: "name_of ps = JStr (str ''weather'') \<and> arguments_of ps = JObj args
            \<and> quote_value env (lookup args (str ''city'') (JStr (str ''Frisco, Colorado''))) = Inr enc"
    and f: "urlopen env (length (fetched s)) (weather_url enc) 10 = Opened 200 (Inr body)
               \<and> loads env body = Inl (JSONDecodeError m)"
  from w have c: "handle env s (JObj kvs) =
      Inr (emit (text_response (id_of kvs)
           (weather_info env
             (fst (weather_try env s (lookup args (str ''city'') (JStr (str ''Frisco, Colorado'')))))))
         (snd (weather_try env s (lookup args (str ''city'') (JStr (str ''Frisco, Colorado''))))))"
    by (intro handle_weather [OF assms]) simp_all
  from w f show "handle env s (JObj kvs)
      = Inr (s\<lparr>fetched := fetched s @ [weather_url enc],
              out := out s @ [text_result (id_of kvs)
                ([9888, 65039] @ str '' Error processing weather data: ''
                 @ exc_str env (JSONDecodeError m))]\<rparr>)"
    unfolding c
    by (simp add: weather_try_body weather_info_simps processing_error_text_def
        emit_def text_response_def result_response_def)
next
  assume w: "name_of ps = JStr (str ''weather'') \<and> arguments_of ps = JObj args
            \<and> quote_value env (lookup args (str ''city'') (JStr (str ''Frisco, Colorado''))) = Inr enc"
    and f: "urlopen env (length (fetched s)) (weather_url enc) 10 = Opened 200 (Inr body)
               \<and> loads env body = Inr (JObj doc) \<and> map_of doc (str ''current_condition'') = None"
  from w have c: "handle env s (JObj kvs) =
      Inr (emit (text_response (id_of kvs)
           (weather_info env
             (fst (weather_try env s (lookup args (str ''city'') (JStr (str ''Frisco, Colorado'')))))))
         (snd (weather_try env s (lookup args (str ''city'') (JStr (str ''Frisco, Colorado''))))))"
    by (intro handle_weather [OF assms]) simp_all
  from w f show "handle env s (JObj kvs)
      = Inr (s\<lparr>fetched := fetched s @ [weather_url enc],
              out := out s @ [text_result (id_of kvs)
                ([9888, 65039] @ str '' Error processing weather data: ''
                 @ exc_str env (KeyError (JStr (str ''current_condition''))))]\<rparr>)"
    unfolding c
    by (simp add: weather_try_body weather_info_simps processing_error_text_def
        weather_report_def getitem_def
        emit_def text_response_def result_response_def)
next
  assume w: "name_of ps = JStr (str ''weather'') \<and> arguments_of ps = JObj args
            \<and> xavier_city (lookup args (str ''city'') JNull) = Inr city
            \<and> quote env city = Inr xenc"
    and f: "urlopen env (length (fetched s)) (weather_url xenc) 15 = Refused (URLError reason)"
  from w have c: "xavier_handle env s (JObj kvs) =
      Inr (emit (text_response (id_of kvs)
             (xavier_weather_info env city (fst (xavier_weather_try env s city))))
           (snd (xavier_weather_try env s city)))"
    by (intro xavier_handle_weather [OF assms]) (simp, simp, simp)
  from w f show "xavier_handle env s (JObj kvs)
      = Inr (s\<lparr>fetched := fetched s @ [weather_url xenc],
              out := out s @ [text_result (id_of kvs)
                ([287, 376, 338] @ str '' Network error getting weather for '' @ city
                 @ str '': '' @ exc_str env (URLError reason))]\<rparr>)"
    unfolding c
    by (simp add: xavier_weather_try_refused xavier_weather_info_def
        emit_def text_response_def result_response_def)
next
  assume w: "name_of ps = JStr (str ''weather'') \<and> arguments_of ps = JObj args
            \<and> xavier_city (lookup args (str ''city'') JNull) = Inr city
            \<and> quote env city = Inr xenc"
    and f: "urlopen env (length (fetched s)) (weather_url xenc) 15 = Opened 200 (Inr body)
               \<and> loads env body = Inl (JSONDecodeError m)"
  from w have c: "xavier_handle env s (JObj kvs) =
      Inr (emit (text_response (id_of kvs)
             (xavier_weather_info env city (fst (xavier_weather_try env s city))))
           (snd (xavier_weather_try env s city)))"
    by (intro xavier_handle_weather [OF assms]) (simp, simp, simp)
  from w f show "xavier_handle env s (JObj kvs)
      = Inr (s\<lparr>fetched := fetched s @ [weather_url xenc],
              out := out s @ [text_result (id_of kvs)
                ([226, 353, 160, 239, 184] @ str '' Error parsing weather data for ''
                 @ city @ str '': Invalid response format'')]\<rparr>)"
    unfolding c
    by (simp add: xavier_weather_try_body xavier_weather_info_def
        emit_def text_response_def result_response_def)
next
  assume w: "name_of ps = JStr (str ''weather'') \<and> arguments_of ps = JObj args
            \<and> xavier_city (lookup args (str ''city'') JNull) = Inr city
            \<and> quote env city = Inr xenc"
    and f: "urlopen env (length (fetched s)) (weather_url xenc) 15 = Opened 200 (Inr body)
               \<and> loads env body = Inr (JObj doc) \<and> map_of doc (str ''current_condition'') = None"
  from w have c: "xavier_handle env s (JObj kvs) =
      Inr (emit (text_response (id_of kvs)
             (xavier_weather_info env city (fst (xavier_weather_try env s city))))
           (snd (xavier_weather_try env s city)))"
    by (intro xavier_handle_weather [OF assms]) (simp, simp, simp)
  from w f show "xavier_handle env s (JObj kvs)
      = Inr (s\<lparr>fetched := fetched s @ [weather_url xenc],
              out := out s @ [text_result (id_of kvs)
                ([226, 353, 160, 239, 184] @ str '' Incomplete weather data for ''
                 @ city @ str '': Missing ''
                 @ exc_str env (KeyError (JStr (str ''current_condition''))))]\<rparr>)"
    unfolding c
    by (simp add: xavier_weather_try_body xavier_weather_info_def
        xavier_weather_report_def getitem_def
        emit_def text_response_def result_response_def)
qed

theorem registered_tool_answers_with_text_witness:
  "handle sample_env start (JObj (req_weather (JInt 3) (str ''Nowhere'')))
     = Inr \<lparr>initialized = False,
            out = [text_result (JInt 3)
                     ([127760] @ str '' Network error getting weather: ''
                      @ str ''<urlopen error timed out>'')],
            fetched = [weather_url (str ''Nowhere'')]\<rparr>
   \<and> handle sample_env start (JObj (req_weather (JInt 3) (str ''Garbled'')))
     = Inr \<lparr>initialized = False,
            out = [text_result (JInt 3)
                     ([9888, 65039] @ str '' Error processing weather data: ''
                      @ str ''Expecting value: line 1 column 1 (char 0)'')],
            fetched = [weather_url (str ''Garbled'')]\<rparr>
   \<and> handle sample_env start (JObj (req_weather (JInt 3) (str ''Atlantis'')))
     = Inr \<lparr>initialized = False,
            out = [text_result (JInt 3)
                     ([9888, 65039] @ str '' Error processing weather data: ''
                      @ [39] @ str ''current_condition'' @ [39])],
            fetched = [weather_url (str ''Atlantis'')]\<rparr>
   \<and> xavier_handle sample_env start (JObj (req_weather (JInt 3) (str ''Nowhere'')))
     = Inr \<lparr>initialized = False,
            out = [text_result (JInt 3)
                     ([287, 376, 338] @ str '' Network error getting weather for ''
                      @ str ''Nowhere'' @ str '': '' @ str ''<urlopen error timed out>'')],
            fetched = [weather_url (str ''Nowhere'')]\<rparr>
   \<and> xavier_handle sample_env start (JObj (req_weather (JInt 3) (str ''Garbled'')))
     = Inr \<lparr>initialized = False,
            out = [text_result (JInt 3)
                     ([226, 353, 160, 239, 184] @ str '' Error parsing weather data for ''
                      @ str ''Garbled'' @ str '': Invalid response format'')],
            fetched = [weather_url (str ''Garbled'')]\<rparr>
   \<and> xavier_handle sample_env start (JObj (req_weather (JInt 3) (str ''Atlantis'')))
     = Inr \<lparr>initialized = False,
            out = [text_result (JInt 3)
                     ([226, 353, 160, 239, 184] @ str '' Incomplete weather data for ''
                      @ str ''Atlantis'' @ str '': Missing '' @ [39]
                      @ str ''current_condition'' @ [39])],
            fetched = [weather_url (str ''Atlantis'')]\<rparr>
   \<and> (\<exists>text s'. xavier_handle sample_env start (JObj (req_weather (JInt 3) (str ''Denver'')))
                   = Inr s' \<and> out s' = [text_result (JInt 3) text])
   \<and> (\<exists>text s'. handle sample_env start (JObj (req_weather (JInt 3) (str ''Denver'')))
                   = Inr s' \<and> out s' = [text_result (JInt 3) text])
   \<and> (\<exists>e. handle sample_env start (JObj req_weather_untyped) = Inl e
          \<and> (\<forall>t. e \<noteq> JSONDecodeError t))
   \<and> (\<exists>e. xavier_handle sample_env start (JObj req_weather_city_5) = Inl e
          \<and> (\<forall>t. e \<noteq> JSONDecodeError t))"
proof -
  have r: "method_of (req_weather (JInt 3) city) = JStr (str ''tools/call'')"
    "id_of (req_weather (JInt 3) city) = JInt 3"
    "params_of (req_weather (JInt 3) city)
       = JObj [(str ''name'', JStr (str ''weather'')),
               (str ''arguments'', JObj [(str ''city'', JStr city)])]"
    "call_typed (req_weather (JInt 3) city)"
    "xavier_call_typed (req_weather (JInt 3) city)" for city
    by (simp_all add: req_weather_def lookup_def call_typed_def xavier_call_typed_def
        is_dict_def is_text_def)
  have p: "name_of [(str ''name'', JStr (str ''weather'')),
                    (str ''arguments'', JObj [(str ''city'', JStr city)])] = JStr (str ''weather'')"
    "arguments_of [(str ''name'', JStr (str ''weather'')),
                   (str ''arguments'', JObj [(str ''city'', JStr city)])]
       = JObj [(str ''city'', JStr city)]"
    "quote_value sample_env (lookup [(str ''city'', JStr city)] (str ''city'')
        (JStr (str ''Frisco, Colorado''))) = Inr city"
    "lookup [(str ''city'', JStr city)] (str ''city'') JNull = JStr city"
    "quote sample_env city = Inr city" for city
    by (simp_all add: lookup_def quote_value_def sample_env_def)
  have u: "urlopen sample_env 0 (weather_url (str ''Nowhere'')) t
       = Refused (URLError (str ''timed out''))"
    "urlopen sample_env 0 (weather_url (str ''Garbled'')) t
       = Opened 200 (Inr (str ''<html>''))"
    "urlopen sample_env 0 (weather_url (str ''Atlantis'')) t
       = Opened 200 (Inr (str ''{}''))" for t
    by (simp_all add: sample_env_def sample_urlopen_def weather_url_def)
  have st: "fetched start = []" "out start = []" "initialized start = False"
    "start\<lparr>fetched := f, out := ou\<rparr> = \<lparr>initialized = False, out = ou, fetched = f\<rparr>" for f ou
    by (simp_all add: start_def)
  have x: "exc_str sample_env (URLError (str ''timed out'')) = str ''<urlopen error timed out>''"
    "exc_str sample_env (KeyError (JStr (str ''current_condition'')))
       = [39] @ str ''current_condition'' @ [39]"
    "exc_str sample_env (JSONDecodeError (str ''<html>''))
       = str ''Expecting value: line 1 column 1 (char 0)''"
    by (simp_all add: sample_env_def sample_exc_str_def str_def)
  have reg: "JStr (str ''weather'') \<in> set (map descriptor_name xavier_tools_list)"
    "JStr (str ''weather'') \<in> set (map descriptor_name tools_list)"
    by (simp_all only: xavier_registered_tools registered_tools) simp_all
  have un: "method_of req_weather_untyped = JStr (str ''tools/call'')"
    "id_of req_weather_untyped = JInt 4"
    "params_of req_weather_untyped
       = JObj [(str ''name'', JStr (str ''weather'')), (str ''arguments'', JStr (str ''Denver''))]"
    "\<not> call_typed req_weather_untyped"
    "method_of req_weather_city_5 = JStr (str ''tools/call'')"
    "id_of req_weather_city_5 = JInt 8"
    "params_of req_weather_city_5
       = JObj [(str ''name'', JStr (str ''weather'')),
               (str ''arguments'', JObj [(str ''city'', JInt 5)])]"
    "\<not> xavier_call_typed req_weather_city_5"
    "name_of [(str ''name'', JStr (str ''weather'')), (str ''arguments'', JStr (str ''Denver''))]
       = JStr (str ''weather'')"
    "name_of [(str ''name'', JStr (str ''weather'')),
              (str ''arguments'', JObj [(str ''city'', JInt 5)])] = JStr (str ''weather'')"
    by (simp_all add: req_weather_untyped_def req_weather_city_5_def lookup_def call_typed_def
        xavier_call_typed_def is_dict_def is_text_def truthy_def)
  from registered_tool_answers_with_text [of "req_weather (JInt 3) (str ''Nowhere'')"
      "[(str ''name'', JStr (str ''weather'')),
        (str ''arguments'', JObj [(str ''city'', JStr (str ''Nowhere''))])]"
      sample_env start "[(str ''city'', JStr (str ''Nowhere''))]" "str ''Nowhere''"
      "str ''timed out''" _ _ _ "str ''Nowhere''" "str ''Nowhere''"]
  have a: "handle sample_env start (JObj (req_weather (JInt 3) (str ''Nowhere'')))
     = Inr \<lparr>initialized = False,
            out = [text_result (JInt 3)
                     ([127760] @ str '' Network error getting weather: ''
                      @ str ''<urlopen error timed out>'')],
            fetched = [weather_url (str ''Nowhere'')]\<rparr>"
    and a': "xavier_handle sample_env start (JObj (req_weather (JInt 3) (str ''Nowhere'')))
     = Inr \<lparr>initialized = False,
            out = [text_result (JInt 3)
                     ([287, 376, 338] @ str '' Network error getting weather for ''
                      @ str ''Nowhere'' @ str '': '' @ str ''<urlopen error timed out>'')],
            fetched = [weather_url (str ''Nowhere'')]\<rparr>"
    by (simp_all add: r p u st sample_city x)
  from registered_tool_answers_with_text [of "req_weather (JInt 3) (str ''Garbled'')"
      "[(str ''name'', JStr (str ''weather'')),
        (str ''arguments'', JObj [(str ''city'', JStr (str ''Garbled''))])]"
      sample_env start "[(str ''city'', JStr (str ''Garbled''))]" "str ''Garbled''"
      _ "str ''<html>''" "str ''<html>''" _ "str ''Garbled''" "str ''Garbled''"]
  have b: "handle sample_env start (JObj (req_weather (JInt 3) (str ''Garbled'')))
     = Inr \<lparr>initialized = False,
            out = [text_result (JInt 3)
                     ([9888, 65039] @ str '' Error processing weather data: ''
                      @ str ''Expecting value: line 1 column 1 (char 0)'')],
            fetched = [weather_url (str ''Garbled'')]\<rparr>"
    and b': "xavier_handle sample_env start (JObj (req_weather (JInt 3) (str ''Garbled'')))
     = Inr \<lparr>initialized = False,
            out = [text_result (JInt 3)
                     ([226, 353, 160, 239, 184] @ str '' Error parsing weather data for ''
                      @ str ''Garbled'' @ str '': Invalid response format'')],
            fetched = [weather_url (str ''Garbled'')]\<rparr>"
    by (simp_all add: r p u st sample_loads_simps sample_city x)
  from registered_tool_answers_with_text [of "req_weather (JInt 3) (str ''Atlantis'')"
      "[(str ''name'', JStr (str ''weather'')),
        (str ''arguments'', JObj [(str ''city'', JStr (str ''Atlantis''))])]"
      sample_env start "[(str ''city'', JStr (str ''Atlantis''))]" "str ''Atlantis''"
      _ "str ''{}''" _ "[]" "str ''Atlantis''" "str ''Atlantis''"]
  have c: "handle sample_env start (JObj (req_weather (JInt 3) (str ''Atlantis'')))
     = Inr \<lparr>initialized = False,
            out = [text_result (JInt 3)
                     ([9888, 65039] @ str '' Error processing weather data: ''
                      @ [39] @ str ''current_condition'' @ [39])],
            fetched = [weather_url (str ''Atlantis'')]\<rparr>"
    and c': "xavier_handle sample_env start (JObj (req_weather (JInt 3) (str ''Atlantis'')))
     = Inr \<lparr>initialized = False,
            out = [text_result (JInt 3)
                     ([226, 353, 160, 239, 184] @ str '' Incomplete weather data for ''
                      @ str ''Atlantis'' @ str '': Missing '' @ [39]
                      @ str ''current_condition'' @ [39])],
            fetched = [weather_url (str ''Atlantis'')]\<rparr>"
    by (simp_all add: r p u st sample_loads_simps sample_city x)
  from registered_tool_answers_with_text [of "req_weather (JInt 3) (str ''Denver'')"
      "[(str ''name'', JStr (str ''weather'')),
        (str ''arguments'', JObj [(str ''city'', JStr (str ''Denver''))])]"
      sample_env start] reg
  have d: "\<exists>text s'. xavier_handle sample_env start (JObj (req_weather (JInt 3) (str ''Denver'')))
                   = Inr s' \<and> out s' = [text_result (JInt 3) text]"
    and d': "\<exists>text s'. handle sample_env start (JObj (req_weather (JInt 3) (str ''Denver'')))
                   = Inr s' \<and> out s' = [text_result (JInt 3) text]"
    by (simp_all add: r p st)
  from registered_tool_answers_with_text [of req_weather_untyped
      "[(str ''name'', JStr (str ''weather'')), (str ''arguments'', JStr (str ''Denver''))]"
      sample_env start, THEN conjunct1] reg
  have e: "\<exists>e. handle sample_env start (JObj req_weather_untyped) = Inl e
          \<and> (\<forall>t. e \<noteq> JSONDecodeError t)"
    by (simp add: un)
  from registered_tool_answers_with_text [of req_weather_city_5
      "[(str ''name'', JStr (str ''weather'')),
        (str ''arguments'', JObj [(str ''city'', JInt 5)])]"
      sample_env start, THEN conjunct2, THEN conjunct1] reg
  have e': "\<exists>e. xavier_handle sample_env start (JObj req_weather_city_5) = Inl e
          \<and> (\<forall>t. e \<noteq> JSONDecodeError t)"
    by (simp add: un)
  from a a' b b' c c' d d' e e' show ?thesis by simp
qed
text \<open>
  C7 as stated: every \<^verbatim>\<open>tools/call\<close> request carrying an id whose \<^verbatim>\<open>params.name\<close> matches
  no registered tool is answered with error -32601. The request below has id 1 and
  \<^verbatim>\<open>params\<close> null, so it names no tool at all: line 194 of \<^verbatim>\<open>xjg.py\<close> calls \<^verbatim>\<open>.get\<close> on
  the null, the AttributeError reaches the outer handler, nothing is written and the
  server stops.
\<close>

theorem params_null_counterexample:
  "loads sample_env (strip (as_line text_params_null)) = Inr (JObj req_params_null)
   \<and> method_of req_params_null = JStr (str ''tools/call'')
   \<and> id_of req_params_null = JInt 1
   \<and> params_of req_params_null = JNull
   \<and> iteration handle sample_env start (as_line text_params_null)
       = Exited (Fatal (AttributeError JNull (str ''get''))) start
   \<and> out (state_of (iteration handle sample_env start (as_line text_params_null))) = []"
proof -
  have h: "handle sample_env start (JObj req_params_null)
      = Inl (AttributeError JNull (str ''get''))"
    by (simp add: handle_def tools_call_def req_params_null_def lookup_def)
  have "iteration handle sample_env start (as_line text_params_null)
       = Exited (Fatal (AttributeError JNull (str ''get''))) start"
    using iteration_raised [where dispatch = handle and line = "as_line text_params_null"
        and env = sample_env and s = start, OF _ _ _ h]
    by (simp add: sample_session)
  then show ?thesis
    by (simp add: sample_session state_of_def)
       (simp add: req_params_null_def lookup_def start_def)
qed

text \<open>
  C7, amended. For every \<^verbatim>\<open>tools/call\<close> request carrying an id whose \<^verbatim>\<open>params\<close> is an
  object (or absent) and whose \<^verbatim>\<open>params.name\<close> is not the name of a tool of the list,
  the server writes exactly one line and changes nothing else: a response with the id
  of the request and an error of code -32601 whose message is \<^verbatim>\<open>Unknown tool: \<close>
  followed by the name. For every request carrying an id whose method is none of
  \<^verbatim>\<open>initialize\<close>, \<^verbatim>\<open>tools/list\<close>, \<^verbatim>\<open>tools/call\<close>, it writes exactly one line: a response
  with that id and an error of the same code whose message is \<^verbatim>\<open>Unknown method: \<close>
  followed by the method. A name or method that is a string stands in the message as
  it is; one that is absent or null stands as \<^verbatim>\<open>None\<close>, a bool as \<^verbatim>\<open>True\<close> or \<^verbatim>\<open>False\<close>,
  an integer in decimal, anything else as Python prints it. When \<^verbatim>\<open>params\<close> is present
  and no object, the \<^verbatim>\<open>tools/call\<close> request is not answered: the dispatcher raises
  AttributeError, nothing is written, and the server stops.
\<close>

theorem unknown_tool_or_method:
  assumes "line \<noteq> []" and "strip line \<noteq> []" and "loads env (strip line) = Inr (JObj kvs)"
    and "id_of kvs \<noteq> JNull"
  shows "(method_of kvs = JStr (str ''tools/call'') \<and> params_of kvs = JObj ps
            \<and> name_of ps \<notin> set (map descriptor_name tools_list)
          \<longrightarrow> iteration handle env s line
                = Running (s\<lparr>out := out s
                    @ [error_result (id_of kvs) (- 32601)
                         (str ''Unknown tool: ''
                          @ (case name_of ps of
                               JStr n \<Rightarrow> n
                             | JNull \<Rightarrow> str ''None''
                             | JBool b \<Rightarrow> (if b then str ''True'' else str ''False'')
                             | JInt i \<Rightarrow> dec_int i
                             | v \<Rightarrow> py_repr env v))]\<rparr>))
       \<and> (method_of kvs \<noteq> JStr (str ''initialize'') \<and> method_of kvs \<noteq> JStr (str ''tools/list'')
            \<and> method_of kvs \<noteq> JStr (str ''tools/call'')
          \<longrightarrow> iteration handle env s line
                = Running (s\<lparr>out := out s
                    @ [error_result (id_of kvs) (- 32601)
                         (str ''Unknown method: ''
                          @ (case method_of kvs of
                               JStr n \<Rightarrow> n
                             | JNull \<Rightarrow> str ''None''
                             | JBool b \<Rightarrow> (if b then str ''True'' else str ''False'')
                             | JInt i \<Rightarrow> dec_int i
                             | v \<Rightarrow> py_repr env v))]\<rparr>))
       \<and> (method_of kvs = JStr (str ''tools/call'') \<and> \<not> is_dict (params_of kvs)
          \<longrightarrow> iteration handle env s line
                = Exited (Fatal (AttributeError (params_of kvs) (str ''get''))) s)"
proof (intro conjI impI)
  assume a: "method_of kvs = JStr (str ''tools/call'') \<and> params_of kvs = JObj ps
            \<and> name_of ps \<notin> set (map descriptor_name tools_list)"
  then have "name_of ps \<noteq> JStr (str ''echo'')" "name_of ps \<noteq> JStr (str ''reverse'')"
    "name_of ps \<noteq> JStr (str ''word_count'')" "name_of ps \<noteq> JStr (str ''weather'')"
    by (simp_all only: registered_tools) simp_all
  with a have "handle env s (JObj kvs) =
    Inr (emit (error_response (id_of kvs) (str ''Unknown tool: '' @ py_str env (name_of ps))) s)"
    using assms(4) by (simp add: handle_tools_call tools_call_unknown)
  from iteration_returned [where dispatch = handle, OF assms(1-3) this]
  show "iteration handle env s line
          = Running (s\<lparr>out := out s
              @ [error_result (id_of kvs) (- 32601)
                   (str ''Unknown tool: ''
                    @ (case name_of ps of
                         JStr n \<Rightarrow> n
                       | JNull \<Rightarrow> str ''None''
                       | JBool b \<Rightarrow> (if b then str ''True'' else str ''False'')
                       | JInt i \<Rightarrow> dec_int i
                       | v \<Rightarrow> py_repr env v))]\<rparr>)"
    by (simp add: emit_def error_response_def py_str_def split: json.splits)
next
  assume a: "method_of kvs \<noteq> JStr (str ''initialize'') \<and> method_of kvs \<noteq> JStr (str ''tools/list'')
            \<and> method_of kvs \<noteq> JStr (str ''tools/call'')"
  then have "handle env s (JObj kvs) =
    Inr (emit (error_response (id_of kvs) (str ''Unknown method: '' @ py_str env (method_of kvs))) s)"
    using assms(4) by (simp add: handle_other)
  from iteration_returned [where dispatch = handle, OF assms(1-3) this]
  show "iteration handle env s line
          = Running (s\<lparr>out := out s
              @ [error_result (id_of kvs) (- 32601)
                   (str ''Unknown method: ''
                    @ (case method_of kvs of
                         JStr n \<Rightarrow> n
                       | JNull \<Rightarrow> str ''None''
                       | JBool b \<Rightarrow> (if b then str ''True'' else str ''False'')
                       | JInt i \<Rightarrow> dec_int i
                       | v \<Rightarrow> py_repr env v))]\<rparr>)"
    by (simp add: emit_def error_response_def py_str_def split: json.splits)
next
  assume a: "method_of kvs = JStr (str ''tools/call'') \<and> \<not> is_dict (params_of kvs)"
  then have "handle env s (JObj kvs) = Inl (AttributeError (params_of kvs) (str ''get''))"
    using assms(4) by (simp add: handle_tools_call tools_call_no_params)
  from iteration_raised [where dispatch = handle, OF assms(1-3) this]
  show "iteration handle env s line
          = Exited (Fatal (AttributeError (params_of kvs) (str ''get''))) s"
    by simp
qed

theorem unknown_tool_or_method_witness:
  "iteration handle sample_env start (as_line text_unknown_tool)
     = Running \<lparr>initialized = False,
                out = [error_result (JInt 5) (- 32601) (str ''Unknown tool: nope'')],
                fetched = []\<rparr>
   \<and> iteration handle sample_env start (as_line text_unknown_tool_5)
     = Running \<lparr>initialized = False,
                out = [error_result (JInt 9) (- 32601) (str ''Unknown tool: 5'')],
                fetched = []\<rparr>
   \<and> iteration handle sample_env start (as_line text_unknown_method)
     = Running \<lparr>initialized = False,
                out = [error_result (JInt 6) (- 32601) (str ''Unknown method: ping'')],
                fetched = []\<rparr>
   \<and> iteration handle sample_env start (as_line text_params_null)
     = Exited (Fatal (AttributeError JNull (str ''get''))) start"
proof -
  have t: "method_of req_unknown_tool = JStr (str ''tools/call'')" "id_of req_unknown_tool = JInt 5"
    "params_of req_unknown_tool = JObj [(str ''name'', JStr (str ''nope''))]"
    "name_of [(str ''name'', JStr (str ''nope''))] = JStr (str ''nope'')"
    by (simp_all add: req_unknown_tool_def lookup_def)
  have t5: "method_of req_unknown_tool_5 = JStr (str ''tools/call'')"
    "id_of req_unknown_tool_5 = JInt 9"
    "params_of req_unknown_tool_5 = JObj [(str ''name'', JInt 5)]"
    "name_of [(str ''name'', JInt 5)] = JInt 5"
    by (simp_all add: req_unknown_tool_5_def lookup_def)
  have m: "method_of req_unknown_method = JStr (str ''ping'')" "id_of req_unknown_method = JInt 6"
    by (simp_all add: req_unknown_method_def lookup_def)
  have n: "method_of req_params_null = JStr (str ''tools/call'')" "id_of req_params_null = JInt 1"
    "params_of req_params_null = JNull"
    by (simp_all add: req_params_null_def lookup_def)
  have r: "JStr (str ''nope'') \<notin> set (map descriptor_name tools_list)"
    "JInt 5 \<notin> set (map descriptor_name tools_list)"
    by (simp_all only: registered_tools) simp_all
  have s: "str ''Unknown tool: '' @ str ''nope'' = str ''Unknown tool: nope''"
    "str ''Unknown tool: '' @ dec_int 5 = str ''Unknown tool: 5''"
    "str ''Unknown method: '' @ str ''ping'' = str ''Unknown method: ping''"
    by (simp_all add: str_def dec_int_def dec_nat.simps)
  from unknown_tool_or_method [of "as_line text_unknown_tool" sample_env req_unknown_tool
      "[(str ''name'', JStr (str ''nope''))]" start] t r
  have a: "iteration handle sample_env start (as_line text_unknown_tool)
     = Running \<lparr>initialized = False,
                out = [error_result (JInt 5) (- 32601) (str ''Unknown tool: nope'')],
                fetched = []\<rparr>"
    by (simp add: sample_session s start_def)
  from unknown_tool_or_method [of "as_line text_unknown_tool_5" sample_env req_unknown_tool_5
      "[(str ''name'', JInt 5)]" start] t5 r
  have b: "iteration handle sample_env start (as_line text_unknown_tool_5)
     = Running \<lparr>initialized = False,
                out = [error_result (JInt 9) (- 32601) (str ''Unknown tool: 5'')],
                fetched = []\<rparr>"
    by (simp add: sample_session s start_def)
  from unknown_tool_or_method [of "as_line text_unknown_method" sample_env req_unknown_method
      "[]" start] m
  have c: "iteration handle sample_env start (as_line text_unknown_method)
     = Running \<lparr>initialized = False,
                out = [error_result (JInt 6) (- 32601) (str ''Unknown method: ping'')],
                fetched = []\<rparr>"
    by (simp add: sample_session s start_def)
  from unknown_tool_or_method [of "as_line text_params_null" sample_env req_params_null
      "[]" start] n
  have d: "iteration handle sample_env start (as_line text_params_null)
     = Exited (Fatal (AttributeError JNull (str ''get''))) start"
    by (simp add: sample_session is_dict_def)
  from a b c d show ?thesis by simp
qed

text \<open>
  C8. At the end of the input stream (\<^verbatim>\<open>readline\<close> returns the empty str) of a server that
  has been running since its start: if no \<^verbatim>\<open>initialize\<close> message is among the lines read,
  the process ends; if one is, the process does not end but idles, stays idle whatever
  is read or however long it waits as long as no signal comes, and a signal ends it.
\<close>

theorem end_of_stream:
  assumes "run handle env (Running start) evs = Running s"
  shows "step handle env (Running s) (Read [])
           = (if initialize_seen env evs then Idle s else Exited StdinClosed s)
         \<and> (Signal \<notin> set later \<longrightarrow> run handle env (Idle s) later = Idle s)
         \<and> step handle env (Idle s) Signal = Exited Signalled s
         \<and> run handle env (Exited StdinClosed s) later = Exited StdinClosed s"
  using run_initialized [OF assms]
  by (simp add: iteration_end_of_stream start_def)

theorem end_of_stream_witness:
  "step handle sample_env (Running start) (Read []) = Exited StdinClosed start
   \<and> run handle sample_env (Running start) [Read (as_line text_initialize), Tick, Read []]
       = Idle \<lparr>initialized = True, out = [initialize_response (JInt 0), tool_declaration],
               fetched = []\<rparr>
   \<and> run handle sample_env
        (Idle \<lparr>initialized = True, out = [initialize_response (JInt 0), tool_declaration],
               fetched = []\<rparr>) [Tick, Read (as_line text_echo), Tick]
       = Idle \<lparr>initialized = True, out = [initialize_response (JInt 0), tool_declaration],
               fetched = []\<rparr>"
proof -
  let ?s = "\<lparr>initialized = True, out = [initialize_response (JInt 0), tool_declaration],
             fetched = []\<rparr>"
  have i: "iteration handle sample_env start (as_line text_initialize) = Running ?s"
    using iteration_returned [where dispatch = handle and line = "as_line text_initialize"
        and env = sample_env and s = start and req = "JObj req_initialize" and s' = ?s]
    by (simp add: sample_session)
       (simp add: handle_def req_initialize_def lookup_def start_def emit_def
          send_tool_declaration_def)
  have seen: "initialize_seen sample_env [Read (as_line text_initialize), Tick]"
    by (simp add: initialize_seen_def is_initialize_def sample_session)
       (simp add: req_initialize_def lookup_def)
  have none: "\<not> initialize_seen sample_env []"
    by (simp add: initialize_seen_def)
  from end_of_stream [of sample_env "[]" start "[]"] none
  have a: "step handle sample_env (Running start) (Read []) = Exited StdinClosed start"
    by simp
  from end_of_stream [of sample_env "[Read (as_line text_initialize), Tick]" ?s
      "[Tick, Read (as_line text_echo), Tick]"] seen i
  have b: "step handle sample_env (Running ?s) (Read []) = Idle ?s"
    "run handle sample_env (Idle ?s) [Tick, Read (as_line text_echo), Tick] = Idle ?s"
    by simp_all
  from i b(1) have "run handle sample_env (Running start)
      [Read (as_line text_initialize), Tick, Read []] = Idle ?s"
    by simp
  with a b(2) show ?thesis by simp
qed

text \<open>
  C9 as stated: every input line that is not valid JSON is skipped without ending the
  server. The line below is 1100 opening brackets, which is no JSON; on it the decoder
  does not report a decode error but runs into the recursion limit. The handler of line
  305 catches JSONDecodeError only, so the RecursionError reaches the outer handler of
  line 314: the server stops, and the valid line that follows is not processed.
\<close>

theorem deep_line_counterexample:
  "length text_deep = 1100 \<and> set text_deep = {91}
   \<and> loads sample_env (strip (as_line text_deep)) = Inl RecursionError
   \<and> iteration handle sample_env start (as_line text_deep)
       = Exited (Fatal RecursionError) start
   \<and> run handle sample_env (Running start) [Read (as_line text_deep), Read (as_line text_echo)]
       = Exited (Fatal RecursionError) start"
proof -
  have "iteration handle sample_env start (as_line text_deep)
       = Exited (Fatal RecursionError) start"
    by (rule iteration_decoder_raised) (simp_all add: sample_session)
  moreover have "length text_deep = 1100" "set text_deep = {91}"
    by (simp_all add: text_deep_def)
  ultimately show ?thesis by (simp add: sample_session)
qed

text \<open>
  C9, amended. For every input line on which the decoder reports a decode error
  (\<^verbatim>\<open>json.loads\<close> raises JSONDecodeError), the server writes nothing, keeps running in
  the state it was in, and goes on with the lines that follow exactly as if the line had
  not been sent: the decode errors are never fatal and never answered.
\<close>

theorem malformed_line_skipped:
  assumes "line \<noteq> []" and "loads env (strip line) = Inl (JSONDecodeError t)"
  shows "iteration handle env s line = Running s
         \<and> run handle env (Running s) (Read line # evs) = run handle env (Running s) evs"
  using iteration_undecoded [OF assms] by simp

theorem malformed_line_skipped_witness:
  "iteration handle sample_env start (as_line text_malformed) = Running start
   \<and> run handle sample_env (Running start)
        [Read (as_line text_malformed), Read (as_line text_echo)]
     = Running \<lparr>initialized = False,
                out = [text_result (JStr (str ''a1'')) (str ''Echo: hi'')],
                fetched = []\<rparr>"
proof -
  have e: "handle sample_env start (JObj req_echo)
      = Inr (emit (text_response (JStr (str ''a1'')) (str ''Echo: '' @ str ''hi'')) start)"
    by (simp add: handle_def tools_call_def echo_text_def argument_def req_echo_def lookup_def
        py_str_def)
  have "iteration handle sample_env start (as_line text_echo)
      = Running (emit (text_response (JStr (str ''a1'')) (str ''Echo: '' @ str ''hi'')) start)"
    using iteration_returned [where dispatch = handle and line = "as_line text_echo"
        and env = sample_env and s = start, OF _ _ _ e]
    by (simp add: sample_session)
  moreover have "emit (text_response (JStr (str ''a1'')) (str ''Echo: '' @ str ''hi'')) start
      = \<lparr>initialized = False,
         out = [text_result (JStr (str ''a1'')) (str ''Echo: hi'')],
         fetched = []\<rparr>"
    by (simp add: emit_def start_def text_response_def result_response_def str_def)
  ultimately show ?thesis
    using malformed_line_skipped [of "as_line text_malformed" sample_env text_malformed start
      "[Read (as_line text_echo)]"]
    by (simp add: sample_session)
qed

text \<open>
  C10. There are input lines that are valid JSON and end the server: in \<^verbatim>\<open>xjg.py\<close> and in
  \<^verbatim>\<open>xavier.py\<close>, for every line that decodes to a value that is no object (an array, a
  string, a number, a bool or null), \<^verbatim>\<open>req.get\<close> raises AttributeError, which neither
  inner handler catches; the server stops without writing anything, and the lines that
  follow are not processed. A line that is no JSON, in contrast, leaves the server running.
\<close>

theorem non_object_ends_server:
  assumes "line \<noteq> []" and "strip line \<noteq> []" and "loads env (strip line) = Inr v"
    and "\<not> is_dict v"
  shows "iteration handle env s line = Exited (Fatal (AttributeError v (str ''get''))) s
         \<and> run handle env (Running s) (Read line # evs)
             = Exited (Fatal (AttributeError v (str ''get''))) s
         \<and> iteration xavier_handle env s line = Exited (Fatal (AttributeError v (str ''get''))) s
         \<and> run xavier_handle env (Running s) (Read line # evs)
             = Exited (Fatal (AttributeError v (str ''get''))) s"
proof -
  have "iteration handle env s line = Exited (Fatal (AttributeError v (str ''get''))) s"
    by (rule iteration_raised [OF assms(1-3)]) (simp_all add: handle_not_dict assms(4))
  moreover
  have "iteration xavier_handle env s line = Exited (Fatal (AttributeError v (str ''get''))) s"
    by (rule iteration_raised [OF assms(1-3)]) (simp_all add: xavier_handle_not_dict assms(4))
  ultimately show ?thesis by simp
qed

theorem non_object_ends_server_witness:
  "iteration handle sample_env start (as_line text_array)
     = Exited (Fatal (AttributeError (JArr []) (str ''get''))) start
   \<and> run handle sample_env (Running start) [Read (as_line text_array), Read (as_line text_echo)]
     = Exited (Fatal (AttributeError (JArr []) (str ''get''))) start
   \<and> iteration xavier_handle sample_env start (as_line text_array)
     = Exited (Fatal (AttributeError (JArr []) (str ''get''))) start
   \<and> run xavier_handle sample_env (Running start)
        [Read (as_line text_array), Read (as_line text_echo)]
     = Exited (Fatal (AttributeError (JArr []) (str ''get''))) start
   \<and> iteration handle sample_env start (as_line text_malformed) = Running start
   \<and> iteration xavier_handle sample_env start (as_line text_malformed) = Running start"
proof -
  have "iteration d sample_env start (as_line text_malformed) = Running start" for d
    by (rule iteration_undecoded) (simp_all add: sample_session)
  with non_object_ends_server [of "as_line text_array" sample_env "JArr []" start
      "[Read (as_line text_echo)]"]
  show ?thesis by (simp add: sample_session is_dict_def)
qed

end
